theory Spec2Isabelle
  imports Complex_Main "HOL-Library.Product_Lexorder"
begin


section \<open>float64\<close>

text \<open>
  The arrays of the program hold IEEE 754 binary64 values. A finite value is the real
  number it denotes, \<open>Fin x\<close>; the negative zero, the two infinities and \<open>nan\<close> are values
  of their own. \<open>Fin 0\<close> is the positive zero. Every operation rounds its exact result to
  the nearest binary64 value, ties to the even significand; a rounded result beyond the
  largest finite value is an infinity.
\<close>

datatype f64 = Fin real | NegZero | PInf | NInf | NaN

instantiation f64 :: "{zero, one}"
begin

definition zero_f64 :: f64 where
  "zero_f64 = Fin 0"

definition one_f64 :: f64 where
  "one_f64 = Fin 1"

instance ..

end

text \<open>Rounding to the nearest integer, a tie to the even one.\<close>

definition rne :: "real \<Rightarrow> int" where
  "rne y =
     (let f = \<lfloor>y\<rfloor>;
          r = y - of_int f
      in if r < 1 / 2 then f else if 1 / 2 < r then f + 1 else if even f then f else f + 1)"

text \<open>
  The exponent of the binade of \<open>x\<close>; the subnormal numbers share the exponent \<open>-1022\<close>.
  The significand has 53 bits, so neighbouring values of exponent \<open>e\<close> are \<open>2\<^sup>e\<^sup>-\<^sup>5\<^sup>2\<close> apart.
\<close>

definition exponent :: "real \<Rightarrow> int" where
  "exponent x = max \<lfloor>log 2 \<bar>x\<bar>\<rfloor> (- 1022)"

definition round64 :: "real \<Rightarrow> f64" where
  "round64 x =
     (if x = 0 then Fin 0
      else
        let u = 2 powi (exponent x - 52);
            y = of_int (rne (x / u)) * u
        in if 2 ^ 1024 \<le> \<bar>y\<bar> then (if 0 < x then PInf else NInf)
           else if y = 0 then (if 0 < x then Fin 0 else NegZero)
           else Fin y)"

fun val :: "f64 \<Rightarrow> real" where
  "val (Fin x) = x"
| "val _ = 0"

fun finite64 :: "f64 \<Rightarrow> bool" where
  "finite64 (Fin x) = True"
| "finite64 NegZero = True"
| "finite64 _ = False"

fun is_inf :: "f64 \<Rightarrow> bool" where
  "is_inf PInf = True"
| "is_inf NInf = True"
| "is_inf _ = False"

text \<open>\<^verbatim>\<open>x == 0\<close>: both zeros compare equal to zero.\<close>

fun is_zero :: "f64 \<Rightarrow> bool" where
  "is_zero (Fin x) = (x = 0)"
| "is_zero NegZero = True"
| "is_zero _ = False"

text \<open>The sign bit (of \<open>nan\<close> it plays no part below).\<close>

fun negative :: "f64 \<Rightarrow> bool" where
  "negative (Fin x) = (x < 0)"
| "negative NegZero = True"
| "negative NInf = True"
| "negative _ = False"

definition signed_zero :: "bool \<Rightarrow> f64" where
  "signed_zero neg = (if neg then NegZero else Fin 0)"

definition signed_inf :: "bool \<Rightarrow> f64" where
  "signed_inf neg = (if neg then NInf else PInf)"

text \<open>\<^verbatim>\<open>-x\<close>\<close>

fun fneg :: "f64 \<Rightarrow> f64" where
  "fneg (Fin x) = (if x = 0 then NegZero else Fin (- x))"
| "fneg NegZero = Fin 0"
| "fneg PInf = NInf"
| "fneg NInf = PInf"
| "fneg NaN = NaN"

text \<open>\<^verbatim>\<open>x + y\<close>: an exact sum zero is the positive zero unless both operands are negative zeros.\<close>

definition fadd :: "f64 \<Rightarrow> f64 \<Rightarrow> f64" where
  "fadd a b =
     (if a = NaN \<or> b = NaN then NaN
      else if is_inf a \<and> is_inf b then (if a = b then a else NaN)
      else if is_inf a then a
      else if is_inf b then b
      else if val a + val b = 0 then (if negative a \<and> negative b then NegZero else Fin 0)
      else round64 (val a + val b))"

text \<open>\<^verbatim>\<open>x - y\<close>\<close>

definition fsub :: "f64 \<Rightarrow> f64 \<Rightarrow> f64" where
  "fsub a b = fadd a (fneg b)"

text \<open>\<^verbatim>\<open>x * y\<close>\<close>

definition fmul :: "f64 \<Rightarrow> f64 \<Rightarrow> f64" where
  "fmul a b =
     (if a = NaN \<or> b = NaN then NaN
      else if (is_inf a \<and> is_zero b) \<or> (is_zero a \<and> is_inf b) then NaN
      else if is_inf a \<or> is_inf b then signed_inf (negative a \<noteq> negative b)
      else if is_zero a \<or> is_zero b then signed_zero (negative a \<noteq> negative b)
      else round64 (val a * val b))"

text \<open>\<^verbatim>\<open>x / y\<close> as numpy divides: a division by zero raises nothing and gives an infinity or \<open>nan\<close>.\<close>

definition fdiv :: "f64 \<Rightarrow> f64 \<Rightarrow> f64" where
  "fdiv a b =
     (if a = NaN \<or> b = NaN then NaN
      else if (is_inf a \<and> is_inf b) \<or> (is_zero a \<and> is_zero b) then NaN
      else if is_inf a \<or> is_zero b then signed_inf (negative a \<noteq> negative b)
      else if is_inf b \<or> is_zero a then signed_zero (negative a \<noteq> negative b)
      else round64 (val a / val b))"

text \<open>The square root.\<close>

fun fsqrt :: "f64 \<Rightarrow> f64" where
  "fsqrt (Fin x) = (if x < 0 then NaN else round64 (sqrt x))"
| "fsqrt NegZero = NegZero"
| "fsqrt PInf = PInf"
| "fsqrt NInf = NaN"
| "fsqrt NaN = NaN"

text \<open>
  A value of type \<open>f64\<close> that is a binary64 value: rounding leaves it as it is.
\<close>

fun is_float64 :: "f64 \<Rightarrow> bool" where
  "is_float64 (Fin x) = (round64 x = Fin x)"
| "is_float64 _ = True"

text \<open>
  The order in which numpy sorts: \<open>-inf\<close>, the finite values by size (the two zeros are
  equal), \<open>inf\<close>, and \<open>nan\<close> last.
\<close>

fun order_key :: "f64 \<Rightarrow> nat \<times> real" where
  "order_key NInf = (0, 0)"
| "order_key (Fin x) = (1, x)"
| "order_key NegZero = (1, 0)"
| "order_key PInf = (2, 0)"
| "order_key NaN = (3, 0)"

definition key_le :: "f64 \<Rightarrow> f64 \<Rightarrow> bool" where
  "key_le a b = (order_key a \<le> order_key b)"

section \<open>Arrays\<close>

text \<open>
  A two-dimensional array is its shape together with its indexing function:
  \<open>item A i j\<close> is \<^verbatim>\<open>A[i,j]\<close>, meaningful for \<open>i < shape0 A\<close> and \<open>j < shape1 A\<close> only
  (numpy raises IndexError outside; no function below reads there).
  One-dimensional arrays are lists. The input matrices of the program are arrays of
  finite values and have entries of type \<open>real\<close>; arrays that the program computes have
  entries of type \<open>f64\<close>.
\<close>

record 'a ndarray =
  shape0 :: nat
  shape1 :: nat
  item :: "nat \<Rightarrow> nat \<Rightarrow> 'a"

datatype error = AssertionError | ValueError | KeyError | AttributeError

definition bind :: "error + 'a \<Rightarrow> ('a \<Rightarrow> error + 'b) \<Rightarrow> error + 'b" where
  "bind r f = (case r of Inl e \<Rightarrow> Inl e | Inr x \<Rightarrow> f x)"

text \<open>A \<^verbatim>\<open>for\<close> loop whose body can raise: the first exception ends it.\<close>

fun for_each :: "'a list \<Rightarrow> ('a \<Rightarrow> 's \<Rightarrow> error + 's) \<Rightarrow> 's \<Rightarrow> error + 's" where
  "for_each [] body s = Inr s"
| "for_each (x # xs) body s = bind (body x s) (for_each xs body)"

definition zeros :: "nat \<Rightarrow> nat \<Rightarrow> 'a::zero ndarray" where
  "zeros m n = \<lparr>shape0 = m, shape1 = n, item = (\<lambda>i j. 0)\<rparr>"

definition eye :: "nat \<Rightarrow> 'a::{zero,one} ndarray" where
  "eye m = \<lparr>shape0 = m, shape1 = m, item = (\<lambda>i j. if i = j then 1 else 0)\<rparr>"

text \<open>\<^verbatim>\<open>A[i,j] = v\<close>\<close>

definition setitem :: "'a ndarray \<Rightarrow> nat \<Rightarrow> nat \<Rightarrow> 'a \<Rightarrow> 'a ndarray" where
  "setitem A i j v = A\<lparr>item := (item A)(i := (item A i)(j := v))\<rparr>"

text \<open>\<^verbatim>\<open>numpy.concatenate((A, B), axis=1)\<close>: side by side; the row counts must agree.\<close>

definition hstack :: "'a ndarray \<Rightarrow> 'a ndarray \<Rightarrow> 'a ndarray" where
  "hstack A B = \<lparr>shape0 = shape0 A, shape1 = shape1 A + shape1 B,
     item = (\<lambda>i j. if j < shape1 A then item A i j else item B i (j - shape1 A))\<rparr>"

definition concatenate1 :: "'a ndarray \<Rightarrow> 'a ndarray \<Rightarrow> error + 'a ndarray" where
  "concatenate1 A B = (if shape0 A \<noteq> shape0 B then Inl ValueError else Inr (hstack A B))"

text \<open>\<^verbatim>\<open>numpy.concatenate((A, B), axis=0)\<close>: one above the other; the column counts must agree.\<close>

definition vstack :: "'a ndarray \<Rightarrow> 'a ndarray \<Rightarrow> 'a ndarray" where
  "vstack A B = \<lparr>shape0 = shape0 A + shape0 B, shape1 = shape1 A,
     item = (\<lambda>i j. if i < shape0 A then item A i j else item B (i - shape0 A) j)\<rparr>"

definition concatenate0 :: "'a ndarray \<Rightarrow> 'a ndarray \<Rightarrow> error + 'a ndarray" where
  "concatenate0 A B = (if shape1 A \<noteq> shape1 B then Inl ValueError else Inr (vstack A B))"

text \<open>\<^verbatim>\<open>A.T\<close>\<close>

definition transpose_nd :: "'a ndarray \<Rightarrow> 'a ndarray" where
  "transpose_nd A = \<lparr>shape0 = shape1 A, shape1 = shape0 A, item = (\<lambda>i j. item A j i)\<rparr>"

text \<open>\<^verbatim>\<open>numpy.diag(s)\<close> of a one-dimensional array: the square array with \<open>s\<close> on its diagonal.\<close>

definition diag :: "'a::zero list \<Rightarrow> 'a ndarray" where
  "diag s = \<lparr>shape0 = length s, shape1 = length s,
              item = (\<lambda>i j. if i = j then s ! i else 0)\<rparr>"

text \<open>
  Elementwise operations broadcast: two axis lengths are compatible when they are equal or
  one of them is 1, and an axis of length 1 is read at index 0 throughout.
\<close>

definition broadcast_dim :: "nat \<Rightarrow> nat \<Rightarrow> nat option" where
  "broadcast_dim a b =
     (if a = b then Some a else if a = 1 then Some b else if b = 1 then Some a else None)"

definition bitem :: "'a ndarray \<Rightarrow> nat \<Rightarrow> nat \<Rightarrow> 'a" where
  "bitem A i j = item A (if shape0 A = 1 then 0 else i) (if shape1 A = 1 then 0 else j)"

text \<open>\<^verbatim>\<open>A - B\<close> on float64 arrays: every entry is one rounded subtraction.\<close>

definition subtract :: "f64 ndarray \<Rightarrow> f64 ndarray \<Rightarrow> error + f64 ndarray" where
  "subtract A B =
     (case (broadcast_dim (shape0 A) (shape0 B), broadcast_dim (shape1 A) (shape1 B)) of
        (Some m, Some n) \<Rightarrow>
          Inr \<lparr>shape0 = m, shape1 = n, item = (\<lambda>i j. fsub (bitem A i j) (bitem B i j))\<rparr>
      | _ \<Rightarrow> Inl ValueError)"

text \<open>An array of finite values among the float64 arrays (in numpy: the same array).\<close>

definition as_f64 :: "real ndarray \<Rightarrow> f64 ndarray" where
  "as_f64 A = \<lparr>shape0 = shape0 A, shape1 = shape1 A, item = (\<lambda>i j. Fin (item A i j))\<rparr>"

text \<open>The index pairs of an array that hold a nonzero entry.\<close>

definition nonzero :: "real ndarray \<Rightarrow> (nat \<times> nat) set" where
  "nonzero A = {(i, j). i < shape0 A \<and> j < shape1 A \<and> item A i j \<noteq> 0}"

text \<open>
  Python's slice \<^verbatim>\<open>xs[start:]\<close>: a negative \<open>start\<close> counts from the end, and a start
  outside the list is clipped. \<^verbatim>\<open>xs[-k:]\<close> is \<open>slice_from (- k) xs\<close>; for \<open>k = 0\<close> that is
  \<^verbatim>\<open>xs[0:]\<close>, the whole list.
\<close>

definition slice_from :: "int \<Rightarrow> 'a list \<Rightarrow> 'a list" where
  "slice_from start xs =
     drop (nat (if start < 0 then int (length xs) + start else start)) xs"

text \<open>Column slices \<^verbatim>\<open>u[:, :d]\<close> and \<^verbatim>\<open>u[:, d:]\<close> for \<open>d \<ge> 0\<close>.\<close>

definition columns_upto :: "nat \<Rightarrow> 'a ndarray \<Rightarrow> 'a ndarray" where
  "columns_upto d u = \<lparr>shape0 = shape0 u, shape1 = min d (shape1 u), item = item u\<rparr>"

definition columns_from :: "nat \<Rightarrow> 'a ndarray \<Rightarrow> 'a ndarray" where
  "columns_from d u = \<lparr>shape0 = shape0 u, shape1 = shape1 u - d,
                        item = (\<lambda>i j. item u i (j + d))\<rparr>"

section \<open>Library functions\<close>

text \<open>
  The program calls numpy and scikit-learn for everything that adds up many rounded
  terms: \<^verbatim>\<open>preprocessing.normalize\<close>, \<^verbatim>\<open>numpy.dot\<close>, \<^verbatim>\<open>numpy.sum\<close>, \<^verbatim>\<open>numpy.mean\<close>, and
  for sorting, \<^verbatim>\<open>numpy.argsort\<close>. What these return is fixed by the library build (the
  order of the additions, fused operations, the order of equal keys), not by the program.
  The model takes the values they compute as a parameter \<open>lib\<close> and fixes what does
  not depend on the build: the shapes and the exceptions.
\<close>

record numpy =
  normalize_values :: "f64 ndarray \<Rightarrow> nat \<Rightarrow> nat \<Rightarrow> f64"
  dot_values :: "f64 ndarray \<Rightarrow> f64 ndarray \<Rightarrow> nat \<Rightarrow> nat \<Rightarrow> f64"
  argsort_values :: "f64 ndarray \<Rightarrow> nat \<Rightarrow> nat list"
  sum_values :: "f64 ndarray \<Rightarrow> nat \<Rightarrow> f64"
  mean_value :: "f64 list \<Rightarrow> f64"

text \<open>
  \<^verbatim>\<open>sklearn.preprocessing.normalize(A, norm='l2', copy=True)\<close> validates its input first:
  an array with no row, with no column, or with an entry that is not finite raises
  ValueError. Otherwise the result has the shape of \<open>A\<close>.
\<close>

definition normalize :: "numpy \<Rightarrow> f64 ndarray \<Rightarrow> error + f64 ndarray" where
  "normalize lib A =
     (if (\<exists>i<shape0 A. \<exists>j<shape1 A. \<not> finite64 (item A i j)) \<or> shape0 A = 0 \<or> shape1 A = 0
      then Inl ValueError
      else Inr \<lparr>shape0 = shape0 A, shape1 = shape1 A, item = normalize_values lib A\<rparr>)"

text \<open>\<^verbatim>\<open>numpy.dot(A, B)\<close> of two-dimensional arrays: the inner dimensions must agree.\<close>

definition dot :: "numpy \<Rightarrow> f64 ndarray \<Rightarrow> f64 ndarray \<Rightarrow> error + f64 ndarray" where
  "dot lib A B =
     (if shape1 A \<noteq> shape0 B then Inl ValueError
      else Inr \<lparr>shape0 = shape0 A, shape1 = shape1 B, item = dot_values lib A B\<rparr>)"

text \<open>
  \<^verbatim>\<open>numpy.argsort(S)\<close> sorts along the last axis: row \<open>i\<close> of the result lists the column
  indices of row \<open>i\<close> of \<open>S\<close>. The result is an integer array, here the list of its rows.
\<close>

definition argsort :: "numpy \<Rightarrow> f64 ndarray \<Rightarrow> nat list list" where
  "argsort lib S = map (argsort_values lib S) [0..<shape0 S]"

text \<open>
  What numpy promises of \<^verbatim>\<open>argsort\<close>: every row of the result is a permutation of the
  column indices, in ascending order of the values. It promises no order among equal values.
\<close>

definition argsort_spec :: "numpy \<Rightarrow> bool" where
  "argsort_spec lib =
     (\<forall>S i. i < shape0 S \<longrightarrow>
        distinct (argsort_values lib S i) \<and> set (argsort_values lib S i) = {..<shape1 S}
      \<and> sorted_wrt (\<lambda>a b. key_le (item S i a) (item S i b)) (argsort_values lib S i))"

text \<open>\<^verbatim>\<open>numpy.sum(W, axis=1)\<close>: the row totals, a one-dimensional array.\<close>

definition sum_axis1 :: "numpy \<Rightarrow> f64 ndarray \<Rightarrow> f64 list" where
  "sum_axis1 lib W = map (sum_values lib W) [0..<shape0 W]"

text \<open>\<^verbatim>\<open>numpy.mean(s)\<close>\<close>

definition mean :: "numpy \<Rightarrow> f64 list \<Rightarrow> f64" where
  "mean lib s = mean_value lib s"

text \<open>\<^verbatim>\<open>numpy.count_nonzero(s)\<close>: \<open>nan\<close> and the infinities count as nonzero.\<close>

definition count_nonzero :: "f64 list \<Rightarrow> nat" where
  "count_nonzero s = length (filter (\<lambda>x. \<not> is_zero x) s)"

text \<open>
  \<^verbatim>\<open>numpy.where(s == 0)\<close> of a one-dimensional array: a tuple with one component, the
  array of the indices that hold zero.
\<close>

definition where_zero :: "f64 list \<Rightarrow> nat list list" where
  "where_zero s = [filter (\<lambda>i. is_zero (s ! i)) [0..<length s]]"

text \<open>\<^verbatim>\<open>s[idx] = v\<close> for an index array \<open>idx\<close> and a float64 array \<open>s\<close>\<close>

definition set_indices :: "f64 list \<Rightarrow> nat list \<Rightarrow> f64 \<Rightarrow> f64 list" where
  "set_indices s idx v = fold (\<lambda>i t. t[i := v]) idx s"

section \<open>The class SupEmb\<close>

text \<open>
  The attribute \<^verbatim>\<open>self.x\<close> is the field \<open>self_x\<close>. The attributes that \<^verbatim>\<open>get_W2\<close> sets
  (\<^verbatim>\<open>XlA\<close>, \<^verbatim>\<open>pos_n\<close>, \<^verbatim>\<open>neg_n\<close>, \<^verbatim>\<open>Y\<close>) do not exist before: they are \<open>None\<close> then.
  Calls of \<^verbatim>\<open>logger.info\<close> and the \<^verbatim>\<open>timeit\<close> decorator only write log lines and are
  left out, and so are the RuntimeWarnings that numpy prints; the message that
  \<^verbatim>\<open>perturbate\<close> logs is returned where it arises.
\<close>

record SupEmb =
  self_Ua :: "real ndarray"
  self_Ub :: "real ndarray"
  self_A :: "real ndarray"
  self_B :: "real ndarray"
  self_XlA_pos :: "real ndarray"
  self_XlA_neg :: "real ndarray"
  self_XuA :: "real ndarray"
  self_XuB :: "real ndarray"
  self_M :: nat
  self_d :: nat
  self_h :: nat
  self_w1 :: real
  self_w2 :: real
  self_w3 :: real
  self_lambda_1 :: real
  self_lambda_2 :: real
  self_k2 :: int
  self_k3 :: int
  self_k3_bar :: int
  self_dims :: int
  self_XlA :: "real ndarray option"
  self_pos_n :: "nat option"
  self_neg_n :: "nat option"
  self_Y :: "real list option"

text \<open>The attributes that the constructor sets, once its assertions have passed.\<close>

definition attributes ::
  "real ndarray \<Rightarrow> real ndarray \<Rightarrow> real ndarray \<Rightarrow> real ndarray \<Rightarrow>
   real ndarray \<Rightarrow> real ndarray \<Rightarrow> real ndarray \<Rightarrow> real ndarray \<Rightarrow> SupEmb" where
  "attributes Ua Ub A B XlA_pos XlA_neg XuA XuB =
     \<lparr>self_Ua = Ua, self_Ub = Ub, self_A = A, self_B = B,
      self_XlA_pos = XlA_pos, self_XlA_neg = XlA_neg,
      self_XuA = XuA, self_XuB = XuB,
      self_M = shape0 Ua, self_d = shape1 Ua, self_h = shape1 Ub,
      self_w1 = 1, self_w2 = 1, self_w3 = 1,
      self_lambda_1 = 1, self_lambda_2 = 1,
      self_k2 = 5, self_k3 = 5, self_k3_bar = 5, self_dims = 500,
      self_XlA = None, self_pos_n = None, self_neg_n = None, self_Y = None\<rparr>"

definition init ::
  "real ndarray \<Rightarrow> real ndarray \<Rightarrow> real ndarray \<Rightarrow> real ndarray \<Rightarrow>
   real ndarray \<Rightarrow> real ndarray \<Rightarrow> real ndarray \<Rightarrow> real ndarray \<Rightarrow> error + SupEmb" where
  "init Ua Ub A B XlA_pos XlA_neg XuA XuB =
     (if \<not> shape0 Ua = shape0 Ub then Inl AssertionError
      else if \<not> shape1 Ub = shape1 B then Inl AssertionError
      else if \<not> shape1 Ua = shape1 A then Inl AssertionError
      else if \<not> shape1 XlA_pos = shape1 XlA_neg then Inl AssertionError
      else if \<not> shape0 Ua + shape0 A = shape1 XuA then Inl AssertionError
      else if \<not> shape0 Ub + shape0 B = shape1 XuB then Inl AssertionError
      else Inr (attributes Ua Ub A B XlA_pos XlA_neg XuA XuB))"

subsection \<open>Rule 1\<close>

definition get_W1 :: "nat \<Rightarrow> error + real ndarray" where
  "get_W1 M =
     (let Om = zeros M M;
          Im = eye M
      in bind (concatenate1 Om Im) (\<lambda>top.
         bind (concatenate1 Im Om) (\<lambda>bottom.
         concatenate0 top bottom)))"

subsection \<open>Nearest neighbours\<close>

definition get_kNNs ::
  "numpy \<Rightarrow> f64 ndarray \<Rightarrow> int \<Rightarrow> error + f64 ndarray \<times> (nat \<rightharpoonup> nat list)" where
  "get_kNNs lib A k =
     bind (normalize lib A) (\<lambda>normA.
     bind (dot lib normA (transpose_nd normA)) (\<lambda>S.
     let N = argsort lib S;
         neighbours = fold (\<lambda>i nb. nb(i \<mapsto> slice_from (- k) (N ! i)))
                           [0..<shape0 S] Map.empty
     in Inr (S, neighbours)))"

subsection \<open>Rule 2\<close>

text \<open>
  The body of the inner loop of \<^verbatim>\<open>get_W2\<close>. The \<^verbatim>\<open>and\<close> does not look
  \<^verbatim>\<open>neighbours[j]\<close> up when \<open>j\<close> is not in \<^verbatim>\<open>neighbours[i]\<close>. The weight
  \<^verbatim>\<open>-self.lambda_2 * S[i,j]\<close> is one negation and one rounded product.
\<close>

definition W2_body ::
  "real \<Rightarrow> real list \<Rightarrow> f64 ndarray \<Rightarrow> (nat \<rightharpoonup> nat list) \<Rightarrow> nat \<Rightarrow> nat \<Rightarrow>
   f64 ndarray \<Rightarrow> error + f64 ndarray" where
  "W2_body lambda_2 Y S neighbours i j W2 =
     (case neighbours i of
        None \<Rightarrow> Inl KeyError
      | Some ni \<Rightarrow>
          if j \<in> set ni then
            (case neighbours j of
               None \<Rightarrow> Inl KeyError
             | Some nj \<Rightarrow>
                 if i \<in> set nj then
                   (if Y ! i = Y ! j
                    then Inr (setitem W2 i j (fmul (fneg (Fin lambda_2)) (item S i j)))
                    else Inr (setitem W2 i j (item S i j)))
                 else Inr W2)
          else Inr W2)"

definition get_W2 :: "numpy \<Rightarrow> SupEmb \<Rightarrow> error + f64 ndarray \<times> SupEmb" where
  "get_W2 lib self =
     bind (concatenate0 (self_XlA_pos self) (self_XlA_neg self)) (\<lambda>XlA.
     let pos_n = shape0 (self_XlA_pos self);
         neg_n = shape0 (self_XlA_neg self);
         n = pos_n + neg_n;
         Y = replicate pos_n 1 @ map (\<lambda>y. - 1 * y) (replicate neg_n 1);
         self' = self\<lparr>self_XlA := Some XlA, self_pos_n := Some pos_n,
                      self_neg_n := Some neg_n, self_Y := Some Y\<rparr>
     in bind (get_kNNs lib (as_f64 XlA) (self_k2 self')) (\<lambda>(S, neighbours).
        bind (for_each [0..<n] (\<lambda>i. for_each [0..<n]
                (\<lambda>j. W2_body (self_lambda_2 self') Y S neighbours i j)) (zeros n n)) (\<lambda>W2.
        Inr (W2, self'))))"

subsection \<open>Rule 3\<close>


subsection \<open>Laplacian and inverse degrees\<close>

definition get_Laplacian :: "numpy \<Rightarrow> f64 ndarray \<Rightarrow> error + f64 ndarray" where
  "get_Laplacian lib W =
     (let s = sum_axis1 lib W;
          D = diag s
      in subtract W D)"

text \<open>
  \<^verbatim>\<open>zeros\<close> is the tuple that \<^verbatim>\<open>numpy.where\<close> returns: the loop runs once, with the array
  of all zero positions as \<open>i\<close>, and \<^verbatim>\<open>len(zeros)\<close> is the length of the tuple. The second
  component of the result is what \<^verbatim>\<open>logging.warning\<close> writes.
\<close>

datatype message = Perturbations nat

definition perturbate :: "numpy \<Rightarrow> f64 list \<Rightarrow> f64 list \<times> message list" where
  "perturbate lib s =
     (let v = mean lib s;
          zs = where_zero s;
          s' = fold (\<lambda>i t. set_indices t i v) zs s
      in (s', [Perturbations (length zs)]))"

text \<open>
  \<^verbatim>\<open>1.0 / s\<close> divides entry by entry. \<open>W\<close> is a float64 array here; of an integer array
  \<^verbatim>\<open>s\<close> would be an integer array too, and \<^verbatim>\<open>s[i] = v\<close> would store the mean truncated.
\<close>

definition get_Dinv :: "numpy \<Rightarrow> f64 ndarray \<Rightarrow> f64 ndarray \<times> message list" where
  "get_Dinv lib W =
     (let s = sum_axis1 lib W;
          (s', log) = (if count_nonzero s > 0 then perturbate lib s else (s, []));
          Dinv = diag (map (fdiv 1) s')
      in (Dinv, log))"

subsection \<open>Projection\<close>

text \<open>
  \<^verbatim>\<open>sparsesvd\<close> is a library function; \<^verbatim>\<open>get_projection\<close> takes it as a parameter. Whatever
  array \<open>u\<close> it returns, the projections are the column slices of \<open>u\<close> at \<open>d\<close>.
\<close>

definition get_projection ::
  "(f64 ndarray \<Rightarrow> int \<Rightarrow> error + f64 ndarray \<times> f64 list \<times> f64 ndarray) \<Rightarrow>
   SupEmb \<Rightarrow> f64 ndarray \<Rightarrow> error + f64 ndarray \<times> f64 ndarray" where
  "get_projection sparsesvd self Q =
     bind (sparsesvd Q (self_dims self)) (\<lambda>(u, s, v).
     let Pa = columns_upto (self_d self) u;
         Pb = columns_from (self_d self) u
     in Inr (Pa, Pb))"

section \<open>Reference forms and example inputs\<close>

text \<open>The block matrix \<open>[[0, I], [I, 0]]\<close> written out entry by entry.\<close>

definition W1_blocks :: "nat \<Rightarrow> real ndarray" where
  "W1_blocks M = \<lparr>shape0 = 2 * M, shape1 = 2 * M,
     item = (\<lambda>i j. if i < M then (if j < M then 0 else if i = j - M then 1 else 0)
                    else (if j < M then (if i - M = j then 1 else 0) else 0))\<rparr>"

text \<open>An array given by the list of its rows.\<close>

definition of_rows :: "nat \<Rightarrow> nat \<Rightarrow> 'a list list \<Rightarrow> 'a ndarray" where
  "of_rows m n rows = \<lparr>shape0 = m, shape1 = n, item = (\<lambda>i j. rows ! i ! j)\<rparr>"



text \<open>
  An object with \<open>d = 1\<close>, \<open>h = 2\<close> and \<open>dims = 2\<close>, the symmetric \<open>3 \<times> 3\<close> matrix
  \<open>diag(3, 2, 1)\<close>, and what \<^verbatim>\<open>sparsesvd\<close> returns for it and rank 2: the two leading
  singular vectors (up to sign) as the rows of \<open>ut\<close>, the singular values, and \<open>vt\<close>.
\<close>

definition self_12 :: SupEmb where
  "self_12 = (attributes (zeros 1 1) (zeros 1 2) (zeros 1 1) (zeros 1 2)
                (zeros 1 2) (zeros 1 2) (zeros 1 2) (zeros 1 2))\<lparr>self_dims := 2\<rparr>"

definition Q_321 :: "f64 ndarray" where
  "Q_321 = diag [Fin 3, Fin 2, Fin 1]"

definition sparsesvd_321 ::
  "f64 ndarray \<Rightarrow> int \<Rightarrow> error + f64 ndarray \<times> f64 list \<times> f64 ndarray" where
  "sparsesvd_321 Q k =
     Inr (of_rows 2 3 [[1, 0, 0], [0, 1, 0]], [Fin 3, Fin 2], of_rows 2 3 [[1, 0, 0], [0, 1, 0]])"


subsection \<open>Nearest neighbours in closed form\<close>

text \<open>An array that \<^verbatim>\<open>preprocessing.normalize\<close> accepts.\<close>

definition valid_input :: "f64 ndarray \<Rightarrow> bool" where
  "valid_input A =
     (0 < shape0 A \<and> 0 < shape1 A \<and> (\<forall>i<shape0 A. \<forall>j<shape1 A. finite64 (item A i j)))"

text \<open>
  The similarity matrix \<^verbatim>\<open>S = numpy.dot(normA, normA.T)\<close> and the dictionary that
  \<^verbatim>\<open>get_kNNs\<close> returns for an array that \<^verbatim>\<open>normalize\<close> accepts.
\<close>

definition normalized :: "numpy \<Rightarrow> f64 ndarray \<Rightarrow> f64 ndarray" where
  "normalized lib A = \<lparr>shape0 = shape0 A, shape1 = shape1 A, item = normalize_values lib A\<rparr>"

definition similarity :: "numpy \<Rightarrow> f64 ndarray \<Rightarrow> f64 ndarray" where
  "similarity lib A = \<lparr>shape0 = shape0 A, shape1 = shape0 A,
     item = dot_values lib (normalized lib A) (transpose_nd (normalized lib A))\<rparr>"

definition neighbours_of :: "numpy \<Rightarrow> f64 ndarray \<Rightarrow> int \<Rightarrow> (nat \<rightharpoonup> nat list)" where
  "neighbours_of lib A k =
     (\<lambda>i. if i < shape0 A
          then Some (slice_from (- k) (argsort_values lib (similarity lib A) i))
          else None)"

text \<open>
  The length of \<^verbatim>\<open>xs[-k:]\<close> for a list of length \<open>n\<close>: \<open>k\<close> entries, all of them when
  \<open>k \<ge> n\<close>; the whole list for \<open>k = 0\<close>; and for negative \<open>k\<close> what is left after the
  first \<open>-k\<close> entries.
\<close>

definition kept :: "int \<Rightarrow> nat \<Rightarrow> nat" where
  "kept k n = (if 0 < k then min (nat k) n else n - nat (- k))"

text \<open>
  \<open>xs\<close> holds \<open>m\<close> of the columns of row \<open>i\<close> of \<open>S\<close> with the largest values: it has \<open>m\<close>
  distinct entries, and no column outside it comes after a column inside it in numpy's
  sorting order.
\<close>

definition largest_of_row :: "f64 ndarray \<Rightarrow> nat \<Rightarrow> nat \<Rightarrow> nat list \<Rightarrow> bool" where
  "largest_of_row S i m xs =
     (distinct xs \<and> length xs = m \<and> set xs \<subseteq> {..<shape1 S}
    \<and> (\<forall>a\<in>set xs. \<forall>b<shape1 S. b \<notin> set xs \<longrightarrow> key_le (item S i b) (item S i a)))"

subsection \<open>One library\<close>

text \<open>
  A library whose sums run from left to right, one rounded operation at a time, and whose
  sort keeps equal values in index order. numpy adds long rows in another order; the
  examples below are so small that every order of the additions gives the same values.
\<close>

definition seq_sum :: "f64 list \<Rightarrow> f64" where
  "seq_sum xs = foldl fadd 0 xs"

definition numpy_seq :: numpy where
  "numpy_seq =
     \<lparr>normalize_values =
        (\<lambda>A i j. let norm = fsqrt (seq_sum (map (\<lambda>c. fmul (item A i c) (item A i c))
                                                  [0..<shape1 A]))
                  in fdiv (item A i j) (if is_zero norm then 1 else norm)),
      dot_values =
        (\<lambda>A B i j. seq_sum (map (\<lambda>c. fmul (item A i c) (item B c j)) [0..<shape1 A])),
      argsort_values = (\<lambda>S i. List.sort_key (\<lambda>j. order_key (item S i j)) [0..<shape1 S]),
      sum_values = (\<lambda>W i. seq_sum (map (item W i) [0..<shape1 W])),
      mean_value = (\<lambda>s. fdiv (seq_sum s) (Fin (real (length s))))\<rparr>"

text \<open>Three rows, two of them equal.\<close>

definition X_three :: "f64 ndarray" where
  "X_three = of_rows 3 2 [[1, 0], [1, 0], [0, 1]]"


subsection \<open>Rule 2 in closed form\<close>

text \<open>
  Rows \<open>i\<close> and \<open>j\<close> are mutual neighbours when each is in the other's neighbour list.
\<close>

definition mutual :: "(nat \<rightharpoonup> nat list) \<Rightarrow> nat \<Rightarrow> nat \<Rightarrow> bool" where
  "mutual neighbours i j =
     (case (neighbours i, neighbours j) of
        (Some ni, Some nj) \<Rightarrow> j \<in> set ni \<and> i \<in> set nj
      | _ \<Rightarrow> False)"

text \<open>The weight that \<^verbatim>\<open>get_W2\<close> writes for a pair of mutual neighbours.\<close>

definition W2_weight :: "real \<Rightarrow> real list \<Rightarrow> f64 ndarray \<Rightarrow> nat \<Rightarrow> nat \<Rightarrow> f64" where
  "W2_weight lambda_2 Y S i j =
     (if Y ! i = Y ! j then fmul (fneg (Fin lambda_2)) (item S i j) else item S i j)"

text \<open>
  One positive row and two negative rows, with \<open>k2 = 2\<close> and \<open>lambda_2 = 2\<close>; the labeled
  matrix is \<open>[[1, 0], [1, 0], [0, 1]]\<close>.
\<close>

definition self_labeled :: SupEmb where
  "self_labeled = (attributes (zeros 1 1) (zeros 1 1) (zeros 1 1) (zeros 1 1)
                    (of_rows 1 2 [[1, 0]]) (of_rows 2 2 [[1, 0], [0, 1]])
                    (zeros 1 2) (zeros 1 2))\<lparr>self_k2 := 2, self_lambda_2 := 2\<rparr>"


definition XlA_labeled :: "f64 ndarray" where
  "XlA_labeled = as_f64 (vstack (of_rows 1 2 [[1, 0]]) (of_rows 2 2 [[1, 0], [0, 1]]))"


subsection \<open>The Laplacian in closed form\<close>

text \<open>What \<^verbatim>\<open>get_Laplacian\<close> returns for a square array.\<close>

definition Laplacian_of :: "numpy \<Rightarrow> f64 ndarray \<Rightarrow> f64 ndarray" where
  "Laplacian_of lib W = \<lparr>shape0 = shape0 W, shape1 = shape0 W,
     item = (\<lambda>i j. fsub (bitem W i j) (bitem (diag (sum_axis1 lib W)) i j))\<rparr>"

text \<open>
  Row \<open>i\<close> of \<open>W\<close> is computed without rounding error: its entries are finite, the
  library's row sum is their exact sum, and so is the difference on the diagonal.
\<close>

definition exact_row :: "numpy \<Rightarrow> f64 ndarray \<Rightarrow> nat \<Rightarrow> bool" where
  "exact_row lib W i =
     ((\<forall>j<shape1 W. finite64 (item W i j) \<and> is_float64 (item W i j))
    \<and> finite64 (sum_values lib W i)
    \<and> val (sum_values lib W i) = (\<Sum>j<shape1 W. val (item W i j))
    \<and> finite64 (fsub (item W i i) (sum_values lib W i))
    \<and> val (fsub (item W i i) (sum_values lib W i)) = val (item W i i) - val (sum_values lib W i))"

text \<open>A matrix with one large entry: \<open>[[1e16, 1], [1, 1]]\<close>.\<close>

definition W_large :: "f64 ndarray" where
  "W_large = of_rows 2 2 [[Fin (10 ^ 16), Fin 1], [Fin 1, Fin 1]]"


section \<open>Rule 1 is the block matrix\<close>

lemma get_W1_blocks: "get_W1 M = Inr (W1_blocks M)"
  by (auto simp: get_W1_def W1_blocks_def bind_def concatenate1_def hstack_def concatenate0_def vstack_def
      zeros_def eye_def Let_def fun_eq_iff)

lemma W1_blocks_transpose: "transpose_nd (W1_blocks M) = W1_blocks M"
  by (auto simp: transpose_nd_def W1_blocks_def fun_eq_iff)

lemma W1_blocks_item:
  "i < 2 * M \<Longrightarrow> j < 2 * M \<Longrightarrow>
   item (W1_blocks M) i j = (if j = i + M \<or> i = j + M then 1 else 0)"
  by (auto simp: W1_blocks_def)

lemma W1_blocks_nonzero:
  "nonzero (W1_blocks M) = (\<lambda>i. (i, i + M)) ` {..<M} \<union> (\<lambda>j. (j + M, j)) ` {..<M}"
proof (rule set_eqI)
  fix p :: "nat \<times> nat"
  obtain i j where p: "p = (i, j)" by (cases p)
  have "p \<in> nonzero (W1_blocks M) \<longleftrightarrow> i < 2 * M \<and> j < 2 * M \<and> (j = i + M \<or> i = j + M)"
    using W1_blocks_item [of i M j] by (auto simp: p nonzero_def W1_blocks_def)
  also have "\<dots> \<longleftrightarrow> (i < M \<and> j = i + M) \<or> (j < M \<and> i = j + M)"
    by auto
  also have "\<dots> \<longleftrightarrow> p \<in> (\<lambda>i. (i, i + M)) ` {..<M} \<union> (\<lambda>j. (j + M, j)) ` {..<M}"
    by (auto simp: p)
  finally show "p \<in> nonzero (W1_blocks M) \<longleftrightarrow>
      p \<in> (\<lambda>i. (i, i + M)) ` {..<M} \<union> (\<lambda>j. (j + M, j)) ` {..<M}" .
qed

lemma W1_blocks_card: "card (nonzero (W1_blocks M)) = 2 * M"
proof -
  let ?U = "(\<lambda>i. (i, i + M)) ` {..<M}"
  let ?L = "(\<lambda>j. (j + M, j)) ` {..<M}"
  have cU: "card ?U = M"
    by (simp add: card_image inj_on_def)
  have cL: "card ?L = M"
    by (simp add: card_image inj_on_def)
  have disj: "?U \<inter> ?L = {}"
    by auto
  have "card (?U \<union> ?L) = card ?U + card ?L"
    by (rule card_Un_disjoint) (simp_all add: disj)
  then show ?thesis
    by (simp add: W1_blocks_nonzero cU cL)
qed

text \<open>
  Claim C9. For every \<open>M\<close>, \<^verbatim>\<open>get_W1(M)\<close> returns a \<open>2M \<times> 2M\<close> array that equals its own
  transpose, is the block matrix \<open>[[0, I], [I, 0]]\<close>, and has exactly \<open>2M\<close> nonzero
  entries, every one of them equal to 1.
\<close>

theorem get_W1_structure:
  "\<exists>W. get_W1 M = Inr W
     \<and> shape0 W = 2 * M \<and> shape1 W = 2 * M
     \<and> transpose_nd W = W
     \<and> W = W1_blocks M
     \<and> card (nonzero W) = 2 * M
     \<and> (\<forall>p \<in> nonzero W. item W (fst p) (snd p) = 1)"
proof -
  have "\<forall>p \<in> nonzero (W1_blocks M). item (W1_blocks M) (fst p) (snd p) = 1"
    by (auto simp: nonzero_def W1_blocks_def split: if_splits)
  then show ?thesis
    by (simp add: get_W1_blocks W1_blocks_transpose W1_blocks_card) (simp add: W1_blocks_def)
qed

theorem get_W1_structure_witness:
  "\<exists>W. get_W1 2 = Inr W
     \<and> shape0 W = 4 \<and> shape1 W = 4
     \<and> transpose_nd W = W
     \<and> card (nonzero W) = 4
     \<and> (1, 3) \<in> nonzero W \<and> item W 1 3 = 1 \<and> item W 3 1 = 1 \<and> item W 1 1 = 0"
proof -
  obtain W where W: "get_W1 2 = Inr W" "shape0 W = 2 * 2" "shape1 W = 2 * 2"
    "transpose_nd W = W" "W = W1_blocks 2" "card (nonzero W) = 2 * 2"
    using get_W1_structure [of 2] by blast
  have "(1, 3) \<in> nonzero W" "item W 1 3 = 1" "item W 3 1 = 1" "item W 1 1 = 0"
    by (simp_all add: W(5) nonzero_def W1_blocks_def)
  with W show ?thesis by simp
qed

section \<open>The constructor\<close>

text \<open>
  Claim C7. Constructing a \<^verbatim>\<open>SupEmb\<close> fails, with an AssertionError, if and only if one
  of the six shape invariants is violated; otherwise the object is returned, with the
  shapes recorded and none of the attributes of the embedding computation set.
\<close>

theorem init_fails_iff_invariant_violated:
  "(init Ua Ub A B XlA_pos XlA_neg XuA XuB = Inl AssertionError)
     = (\<not> (shape0 Ua = shape0 Ub \<and> shape1 Ub = shape1 B \<and> shape1 Ua = shape1 A
           \<and> shape1 XlA_pos = shape1 XlA_neg
           \<and> shape1 XuA = shape0 Ua + shape0 A \<and> shape1 XuB = shape0 Ub + shape0 B))
   \<and> (\<exists>e. init Ua Ub A B XlA_pos XlA_neg XuA XuB = Inl e)
     = (init Ua Ub A B XlA_pos XlA_neg XuA XuB = Inl AssertionError)
   \<and> (\<exists>self. init Ua Ub A B XlA_pos XlA_neg XuA XuB = Inr self
         \<and> self_M self = shape0 Ua \<and> self_d self = shape1 Ua \<and> self_h self = shape1 Ub
         \<and> self_XlA self = None \<and> self_Y self = None)
     = (shape0 Ua = shape0 Ub \<and> shape1 Ub = shape1 B \<and> shape1 Ua = shape1 A
           \<and> shape1 XlA_pos = shape1 XlA_neg
           \<and> shape1 XuA = shape0 Ua + shape0 A \<and> shape1 XuB = shape0 Ub + shape0 B)"
  by (auto simp: init_def attributes_def)

theorem init_fails_iff_invariant_violated_witness:
  "(\<exists>self. init (zeros 2 3) (zeros 2 4) (zeros 1 3) (zeros 1 4)
             (zeros 1 3) (zeros 1 3) (zeros 1 3) (zeros 1 3) = Inr self)
   \<and> init (zeros 2 3) (zeros 3 4) (zeros 1 3) (zeros 1 4)
          (zeros 1 3) (zeros 1 3) (zeros 1 3) (zeros 1 3) = Inl AssertionError
   \<and> init (zeros 2 3) (zeros 2 4) (zeros 1 3) (zeros 1 4)
          (zeros 1 3) (zeros 1 3) (zeros 1 4) (zeros 1 3) = Inl AssertionError"
proof -
  have ok: "\<exists>self. init (zeros 2 3) (zeros 2 4) (zeros 1 3) (zeros 1 4)
             (zeros 1 3) (zeros 1 3) (zeros 1 3) (zeros 1 3) = Inr self"
    using init_fails_iff_invariant_violated
      [of "zeros 2 3" "zeros 2 4" "zeros 1 3" "zeros 1 4"
          "zeros 1 3" "zeros 1 3" "zeros 1 3" "zeros 1 3"]
    by (simp add: zeros_def) blast
  have bad1: "init (zeros 2 3) (zeros 3 4) (zeros 1 3) (zeros 1 4)
          (zeros 1 3) (zeros 1 3) (zeros 1 3) (zeros 1 3) = Inl AssertionError"
    using init_fails_iff_invariant_violated
      [of "zeros 2 3" "zeros 3 4" "zeros 1 3" "zeros 1 4"
          "zeros 1 3" "zeros 1 3" "zeros 1 3" "zeros 1 3"]
    by (simp add: zeros_def)
  have bad2: "init (zeros 2 3) (zeros 2 4) (zeros 1 3) (zeros 1 4)
          (zeros 1 3) (zeros 1 3) (zeros 1 4) (zeros 1 3) = Inl AssertionError"
    using init_fails_iff_invariant_violated
      [of "zeros 2 3" "zeros 2 4" "zeros 1 3" "zeros 1 4"
          "zeros 1 3" "zeros 1 3" "zeros 1 4" "zeros 1 3"]
    by (simp add: zeros_def)
  show ?thesis
    using ok bad1 bad2 by simp
qed


section \<open>Projection\<close>

text \<open>
  Claim C5, as the code has it. \<^verbatim>\<open>get_projection\<close> raises what \<^verbatim>\<open>sparsesvd\<close> raises. When
  \<^verbatim>\<open>sparsesvd\<close> returns \<open>(u, s, v)\<close> and \<open>u\<close> has \<open>r\<close> rows and \<open>d + h\<close> columns, it returns
  \<open>Pa = u[:, :d]\<close> of shape \<open>(r, d)\<close> and \<open>Pb = u[:, d:]\<close> of shape \<open>(r, h)\<close>: the first \<open>d\<close>
  columns of \<open>u\<close> and the remaining ones. How many rows \<open>u\<close> has is up to \<^verbatim>\<open>sparsesvd\<close>.
\<close>

theorem get_projection_splits_columns:
  assumes "sparsesvd Q (self_dims self) = Inr (u, s, v)"
    and "shape0 u = r"
    and "shape1 u = self_d self + self_h self"
  shows "\<exists>Pa Pb. get_projection sparsesvd self Q = Inr (Pa, Pb)
           \<and> shape0 Pa = r \<and> shape1 Pa = self_d self
           \<and> shape0 Pb = r \<and> shape1 Pb = self_h self
           \<and> (\<forall>i j. item Pa i j = item u i j \<and> item Pb i j = item u i (j + self_d self))"
  using assms
  by (simp add: get_projection_def bind_def Let_def columns_upto_def columns_from_def)

lemma get_projection_raises:
  "sparsesvd Q (self_dims self) = Inl e \<Longrightarrow> get_projection sparsesvd self Q = Inl e"
  by (simp add: get_projection_def bind_def)

lemma self_12_fields: "self_d self_12 = 1" "self_h self_12 = 2" "self_dims self_12 = 2"
  by (simp_all add: self_12_def attributes_def zeros_def)

theorem get_projection_splits_columns_witness:
  "sparsesvd_321 Q_321 (self_dims self_12)
     = Inr (of_rows 2 3 [[1, 0, 0], [0, 1, 0]], [Fin 3, Fin 2], of_rows 2 3 [[1, 0, 0], [0, 1, 0]])
   \<and> shape0 (of_rows 2 3 [[1, 0, 0], [0, 1, 0 :: f64]]) = 2
   \<and> shape1 (of_rows 2 3 [[1, 0, 0], [0, 1, 0 :: f64]]) = self_d self_12 + self_h self_12
   \<and> (\<exists>Pa Pb. get_projection sparsesvd_321 self_12 Q_321 = Inr (Pa, Pb)
        \<and> shape0 Pa = 2 \<and> shape1 Pa = 1 \<and> shape0 Pb = 2 \<and> shape1 Pb = 2
        \<and> item Pa 0 0 = 1 \<and> item Pa 1 0 = 0 \<and> item Pb 1 0 = 1 \<and> item Pb 1 1 = 0)"
proof -
  let ?u = "of_rows 2 3 [[1, 0, 0], [0, 1, 0 :: f64]]"
  have h: "sparsesvd_321 Q_321 (self_dims self_12) = Inr (?u, [Fin 3, Fin 2], ?u)"
    by (simp add: sparsesvd_321_def)
  have r: "shape0 ?u = 2" and c: "shape1 ?u = self_d self_12 + self_h self_12"
    by (simp_all add: of_rows_def self_12_fields)
  obtain Pa Pb where g: "get_projection sparsesvd_321 self_12 Q_321 = Inr (Pa, Pb)"
    and p: "shape0 Pa = 2" "shape1 Pa = self_d self_12" "shape0 Pb = 2" "shape1 Pb = self_h self_12"
      "\<forall>i j. item Pa i j = item ?u i j \<and> item Pb i j = item ?u i (j + self_d self_12)"
    using get_projection_splits_columns [of sparsesvd_321 Q_321 self_12, OF h r c] by blast
  have "item Pa 0 0 = 1" "item Pa 1 0 = 0" "item Pb 1 0 = 1" "item Pb 1 1 = 0"
    by (simp_all add: p(5) self_12_fields of_rows_def)
  then have "get_projection sparsesvd_321 self_12 Q_321 = Inr (Pa, Pb)
        \<and> shape0 Pa = 2 \<and> shape1 Pa = 1 \<and> shape0 Pb = 2 \<and> shape1 Pb = 2
        \<and> item Pa 0 0 = 1 \<and> item Pa 1 0 = 0 \<and> item Pb 1 0 = 1 \<and> item Pb 1 1 = 0"
    using g p(1-4) by (simp add: self_12_fields)
  then have "\<exists>Pa Pb. get_projection sparsesvd_321 self_12 Q_321 = Inr (Pa, Pb)
        \<and> shape0 Pa = 2 \<and> shape1 Pa = 1 \<and> shape0 Pb = 2 \<and> shape1 Pb = 2
        \<and> item Pa 0 0 = 1 \<and> item Pa 1 0 = 0 \<and> item Pb 1 0 = 1 \<and> item Pb 1 1 = 0"
    by blast
  then show ?thesis
    using h r c by simp
qed

text \<open>
  With \<open>d = 1\<close>, \<open>h = 2\<close> and \<open>dims = 2\<close> the claim's shape of \<open>Pa\<close> is \<open>(d, dims) = (1, 2)\<close>;
  the code returns an array of shape \<open>(2, 1)\<close>.
\<close>

theorem get_projection_shape_counterexample:
  "get_projection sparsesvd_321 self_12 Q_321
     = Inr (columns_upto 1 (of_rows 2 3 [[1, 0, 0], [0, 1, 0]]),
            columns_from 1 (of_rows 2 3 [[1, 0, 0], [0, 1, 0]]))
   \<and> shape0 (columns_upto 1 (of_rows 2 3 [[1, 0, 0], [0, 1, 0 :: f64]])) = 2
   \<and> shape1 (columns_upto 1 (of_rows 2 3 [[1, 0, 0], [0, 1, 0 :: f64]])) = 1
   \<and> (shape0 (columns_upto 1 (of_rows 2 3 [[1, 0, 0], [0, 1, 0 :: f64]])),
       shape1 (columns_upto 1 (of_rows 2 3 [[1, 0, 0], [0, 1, 0 :: f64]])))
      \<noteq> (self_d self_12, nat (self_dims self_12))"
  by (simp add: get_projection_def bind_def Let_def sparsesvd_321_def self_12_fields
      columns_upto_def columns_from_def of_rows_def)

section \<open>Nearest neighbours\<close>

lemma bind_Inr [simp]: "bind (Inr x) f = f x"
  by (simp add: bind_def)

lemma bind_Inl [simp]: "bind (Inl e) f = Inl e"
  by (simp add: bind_def)

lemma fold_map_upd:
  "fold (\<lambda>i nb. nb(i \<mapsto> g i)) js nb0 = (\<lambda>i. if i \<in> set js then Some (g i) else nb0 i)"
  by (induction js arbitrary: nb0) (auto simp: fun_eq_iff)

lemma argsort_nth: "i < shape0 S \<Longrightarrow> argsort lib S ! i = argsort_values lib S i"
  by (simp add: argsort_def)

lemma similarity_shape [simp]:
  "shape0 (similarity lib A) = shape0 A" "shape1 (similarity lib A) = shape0 A"
  by (simp_all add: similarity_def)

lemma normalize_valid: "valid_input A \<Longrightarrow> normalize lib A = Inr (normalized lib A)"
  by (auto simp: normalize_def valid_input_def normalized_def)

lemma normalize_invalid: "\<not> valid_input A \<Longrightarrow> normalize lib A = Inl ValueError"
  by (auto simp: normalize_def valid_input_def)

lemma get_kNNs_eq:
  assumes "valid_input A"
  shows "get_kNNs lib A k = Inr (similarity lib A, neighbours_of lib A k)"
proof -
  let ?S = "\<lparr>shape0 = shape0 A, shape1 = shape0 A,
             item = dot_values lib (normalized lib A) (transpose_nd (normalized lib A))\<rparr>"
  have d: "dot lib (normalized lib A) (transpose_nd (normalized lib A)) = Inr (similarity lib A)"
    by (simp add: dot_def normalized_def transpose_nd_def similarity_def)
  have "fold (\<lambda>i nb. nb(i \<mapsto> slice_from (- k) (argsort lib (similarity lib A) ! i)))
          [0..<shape0 A] Map.empty = neighbours_of lib A k"
    by (auto simp: fold_map_upd neighbours_of_def fun_eq_iff argsort_nth)
  then show ?thesis
    by (simp add: get_kNNs_def Let_def normalize_valid [OF assms] d)
qed

lemma get_kNNs_invalid: "\<not> valid_input A \<Longrightarrow> get_kNNs lib A k = Inl ValueError"
  by (simp add: get_kNNs_def normalize_invalid)

section \<open>The size of the neighbour lists\<close>

lemma slice_from_distinct: "distinct ys \<Longrightarrow> distinct (slice_from s ys)"
  by (simp add: slice_from_def)

lemma slice_from_subset: "set (slice_from s ys) \<subseteq> set ys"
  by (simp add: slice_from_def set_drop_subset)

lemma slice_from_length: "length (slice_from (- k) ys) = kept k (length ys)"
  by (auto simp: slice_from_def kept_def)

lemma slice_last_all: "int (length ys) \<le> k \<Longrightarrow> slice_from (- k) ys = ys"
  by (simp add: slice_from_def)

lemma slice_from_drop: "\<exists>m. slice_from s ys = drop m ys"
  by (auto simp: slice_from_def)

lemma argsort_row:
  assumes "argsort_spec lib" and "i < shape0 S"
  shows "distinct (argsort_values lib S i)" "set (argsort_values lib S i) = {..<shape1 S}"
    "length (argsort_values lib S i) = shape1 S"
    "sorted_wrt (\<lambda>a b. key_le (item S i a) (item S i b)) (argsort_values lib S i)"
proof -
  show d: "distinct (argsort_values lib S i)" and s: "set (argsort_values lib S i) = {..<shape1 S}"
    and "sorted_wrt (\<lambda>a b. key_le (item S i a) (item S i b)) (argsort_values lib S i)"
    using assms by (simp_all add: argsort_spec_def)
  show "length (argsort_values lib S i) = shape1 S"
    using distinct_card [OF d] s by simp
qed

text \<open>The last entries of a sorted permutation are the largest.\<close>

lemma sorted_drop_largest:
  assumes srt: "sorted_wrt (\<lambda>a b. key_le (item S i a) (item S i b)) p"
    and d: "distinct p" and s: "set p = {..<shape1 S}"
  shows "largest_of_row S i (length p - m) (drop m p)"
proof -
  have "key_le (item S i b) (item S i a)"
    if a: "a \<in> set (drop m p)" and b: "b < shape1 S" "b \<notin> set (drop m p)" for a b
  proof -
    have "set p = set (take m p) \<union> set (drop m p)"
      by (metis append_take_drop_id set_append)
    then have "b \<in> set (take m p)"
      using b s by blast
    moreover have "sorted_wrt (\<lambda>a b. key_le (item S i a) (item S i b)) (take m p @ drop m p)"
      using srt by simp
    ultimately show ?thesis
      using a unfolding sorted_wrt_append by blast
  qed
  moreover have "set (drop m p) \<subseteq> {..<shape1 S}"
    using set_drop_subset [of m p] s by simp
  ultimately show ?thesis
    using d by (simp add: largest_of_row_def)
qed

lemma neighbours_largest:
  assumes spec: "argsort_spec lib" and i: "i < shape0 A"
  shows "\<exists>xs. neighbours_of lib A k i = Some xs
           \<and> largest_of_row (similarity lib A) i (kept k (shape0 A)) xs"
proof -
  let ?S = "similarity lib A"
  let ?p = "argsort_values lib ?S i"
  have i': "i < shape0 ?S"
    using i by simp
  note row = argsort_row [OF spec i']
  obtain m where m: "slice_from (- k) ?p = drop m ?p"
    using slice_from_drop by blast
  have "largest_of_row ?S i (length ?p - m) (drop m ?p)"
    using row by (intro sorted_drop_largest) simp_all
  moreover have "length ?p - m = kept k (shape0 A)"
    using slice_from_length [of k ?p] m row(3) by simp
  ultimately have "largest_of_row ?S i (kept k (shape0 A)) (slice_from (- k) ?p)"
    using m by simp
  then show ?thesis
    using i by (simp add: neighbours_of_def)
qed

lemma argsort_spec_numpy_seq: "argsort_spec numpy_seq"
proof -
  have "sorted_wrt (\<lambda>a b. key_le (item S i a) (item S i b))
          (List.sort_key (\<lambda>j. order_key (item S i j)) [0..<shape1 S])" for S :: "f64 ndarray" and i
    using sorted_sort_key [of "\<lambda>j. order_key (item S i j)" "[0..<shape1 S]"]
    by (simp add: sorted_map key_le_def)
  then show ?thesis
    by (auto simp: argsort_spec_def numpy_seq_def)
qed

lemma less_two: "j < (2::nat) \<longleftrightarrow> j = 0 \<or> j = 1"
  by auto

lemma less_three: "i < (3::nat) \<longleftrightarrow> i = 0 \<or> i = 1 \<or> i = 2"
  by auto

lemma X_three_shape: "shape0 X_three = 3" "shape1 X_three = 2"
  by (simp_all add: X_three_def of_rows_def)

lemma X_three_valid: "valid_input X_three"
  by (auto simp: valid_input_def X_three_def of_rows_def less_two less_three zero_f64_def one_f64_def)

lemma zeros_invalid: "\<not> valid_input (zeros 0 n)" "\<not> valid_input (zeros m 0)"
  by (simp_all add: valid_input_def zeros_def)

text \<open>
  Claim C6, as the code has it. \<^verbatim>\<open>get_kNNs\<close> returns for every \<open>k\<close> when the matrix has at
  least one row and one column and finite entries, and raises ValueError (in
  \<^verbatim>\<open>preprocessing.normalize\<close>) otherwise. The neighbour list of row \<open>i\<close> holds distinct row
  indices, the \<^verbatim>\<open>kept k n\<close> rows of largest similarity to row \<open>i\<close>; it has exactly \<open>k\<close>
  entries for \<open>1 \<le> k \<le> n\<close>, and for \<open>k \<ge> n\<close> it holds all \<open>n\<close> rows, the row itself included
  (no clipping to \<open>n - 1\<close>). Of \<^verbatim>\<open>numpy.argsort\<close> only what numpy promises is used.
\<close>

theorem get_kNNs_neighbour_count:
  assumes "argsort_spec lib"
  shows "(valid_input A \<longrightarrow>
          (\<exists>S neighbours.
              get_kNNs lib A k = Inr (S, neighbours)
            \<and> shape0 S = shape0 A \<and> shape1 S = shape0 A
            \<and> (\<forall>i<shape0 A. \<exists>xs.
                  neighbours i = Some xs \<and> distinct xs \<and> set xs \<subseteq> {..<shape0 A}
                \<and> largest_of_row S i (kept k (shape0 A)) xs
                \<and> (1 \<le> k \<and> k \<le> int (shape0 A) \<longrightarrow> length xs = nat k)
                \<and> (int (shape0 A) \<le> k \<longrightarrow>
                      length xs = shape0 A \<and> set xs = {..<shape0 A} \<and> i \<in> set xs))))
       \<and> (\<not> valid_input A \<longrightarrow> get_kNNs lib A k = Inl ValueError)"
proof (intro conjI impI)
  assume v: "valid_input A"
  let ?S = "similarity lib A"
  have "\<exists>xs. neighbours_of lib A k i = Some xs \<and> distinct xs \<and> set xs \<subseteq> {..<shape0 A}
        \<and> largest_of_row ?S i (kept k (shape0 A)) xs
        \<and> (1 \<le> k \<and> k \<le> int (shape0 A) \<longrightarrow> length xs = nat k)
        \<and> (int (shape0 A) \<le> k \<longrightarrow> length xs = shape0 A \<and> set xs = {..<shape0 A} \<and> i \<in> set xs)"
    if i: "i < shape0 A" for i
  proof -
    let ?p = "argsort_values lib ?S i"
    have i': "i < shape0 ?S"
      using i by simp
    note row = argsort_row [OF assms i']
    obtain xs where xs: "neighbours_of lib A k i = Some xs"
      and l: "largest_of_row ?S i (kept k (shape0 A)) xs"
      using neighbours_largest [OF assms i] by blast
    have eq: "xs = slice_from (- k) ?p"
      using xs i by (simp add: neighbours_of_def)
    have 1: "distinct xs" "set xs \<subseteq> {..<shape0 A}" "length xs = kept k (shape0 A)"
      using l by (simp_all add: largest_of_row_def)
    have 2: "length xs = nat k" if "1 \<le> k" "k \<le> int (shape0 A)"
      using that 1(3) by (simp add: kept_def)
    have 3: "xs = ?p" if "int (shape0 A) \<le> k"
      using that slice_last_all [of ?p k] row(3) eq by simp
    show ?thesis
      using xs l 1 2 3 row i by (intro exI [of _ xs]) auto
  qed
  then show "\<exists>S neighbours.
      get_kNNs lib A k = Inr (S, neighbours)
    \<and> shape0 S = shape0 A \<and> shape1 S = shape0 A
    \<and> (\<forall>i<shape0 A. \<exists>xs.
          neighbours i = Some xs \<and> distinct xs \<and> set xs \<subseteq> {..<shape0 A}
        \<and> largest_of_row S i (kept k (shape0 A)) xs
        \<and> (1 \<le> k \<and> k \<le> int (shape0 A) \<longrightarrow> length xs = nat k)
        \<and> (int (shape0 A) \<le> k \<longrightarrow> length xs = shape0 A \<and> set xs = {..<shape0 A} \<and> i \<in> set xs))"
    by (simp add: get_kNNs_eq [OF v])
next
  assume "\<not> valid_input A"
  then show "get_kNNs lib A k = Inl ValueError"
    by (rule get_kNNs_invalid)
qed

theorem get_kNNs_neighbour_count_witness:
  "argsort_spec numpy_seq \<and> valid_input X_three
   \<and> (\<exists>S neighbours xs ys.
        get_kNNs numpy_seq X_three 2 = Inr (S, neighbours)
      \<and> neighbours 0 = Some xs \<and> length xs = 2 \<and> distinct xs
      \<and> neighbours 2 = Some ys \<and> length ys = 2)
   \<and> get_kNNs numpy_seq (zeros 0 2) 2 = Inl ValueError"
proof -
  note main = get_kNNs_neighbour_count [OF argsort_spec_numpy_seq]
  obtain S neighbours where r: "get_kNNs numpy_seq X_three 2 = Inr (S, neighbours)"
    and a: "\<forall>i<shape0 X_three. \<exists>xs.
          neighbours i = Some xs \<and> distinct xs \<and> set xs \<subseteq> {..<shape0 X_three}
        \<and> largest_of_row S i (kept 2 (shape0 X_three)) xs
        \<and> (1 \<le> (2::int) \<and> 2 \<le> int (shape0 X_three) \<longrightarrow> length xs = nat 2)
        \<and> (int (shape0 X_three) \<le> 2 \<longrightarrow>
              length xs = shape0 X_three \<and> set xs = {..<shape0 X_three} \<and> i \<in> set xs)"
    using main [of X_three 2, THEN conjunct1, THEN mp, OF X_three_valid] by blast
  have "\<exists>xs. neighbours 0 = Some xs \<and> length xs = 2 \<and> distinct xs"
    using a [rule_format, of 0] by (auto simp: X_three_shape)
  moreover have "\<exists>ys. neighbours 2 = Some ys \<and> length ys = 2"
    using a [rule_format, of 2] by (auto simp: X_three_shape)
  moreover have "get_kNNs numpy_seq (zeros 0 2) 2 = Inl ValueError"
    using main [of "zeros 0 2" 2, THEN conjunct2, THEN mp, OF zeros_invalid(1)] .
  ultimately show ?thesis
    using r argsort_spec_numpy_seq X_three_valid by blast
qed

text \<open>
  With three rows and \<open>k = 3\<close> the neighbour list of row 0 has three entries, row 0 among
  them: it is not clipped to the two other rows. And on a matrix with no rows, where every
  \<open>k \<ge> 0\<close> is at least \<open>n\<close>, the call does not succeed.
\<close>

theorem get_kNNs_clipping_counterexample:
  "get_kNNs numpy_seq X_three 3
     = Inr (similarity numpy_seq X_three, neighbours_of numpy_seq X_three 3)
   \<and> length (the (neighbours_of numpy_seq X_three 3 0)) = 3
   \<and> 0 \<in> set (the (neighbours_of numpy_seq X_three 3 0))
   \<and> length (the (neighbours_of numpy_seq X_three 3 0)) \<noteq> shape0 X_three - 1
   \<and> get_kNNs numpy_seq (zeros 0 2) 5 = Inl ValueError"
proof -
  let ?p = "argsort_values numpy_seq (similarity numpy_seq X_three) 0"
  have "0 < shape0 (similarity numpy_seq X_three)"
    by (simp add: X_three_shape)
  note row = argsort_row [OF argsort_spec_numpy_seq this]
  have "slice_from (- 3) ?p = ?p"
    using row(3) by (intro slice_last_all) (simp add: X_three_shape)
  then have n: "the (neighbours_of numpy_seq X_three 3 0) = ?p"
    by (simp add: neighbours_of_def X_three_shape)
  have "length ?p = 3" "0 \<in> set ?p"
    using row by (simp_all add: X_three_shape)
  then show ?thesis
    using n get_kNNs_eq [OF X_three_valid, of numpy_seq 3]
      get_kNNs_invalid [OF zeros_invalid(1), of numpy_seq 2 5]
    by (simp add: X_three_shape)
qed

section \<open>Rule 3\<close>

lemma setitem_shape [simp]:
  "shape0 (setitem W i j v) = shape0 W" "shape1 (setitem W i j v) = shape1 W"
  by (simp_all add: setitem_def)

lemma setitem_item: "item (setitem W i j v) a b = (if a = i \<and> b = j then v else item W a b)"
  by (simp add: setitem_def)








section \<open>Rule 2\<close>

lemma W2_body_eq:
  assumes "neighbours i \<noteq> None" "neighbours j \<noteq> None"
  shows "W2_body l Y S neighbours i j W
       = Inr (if mutual neighbours i j then setitem W i j (W2_weight l Y S i j) else W)"
  using assms by (auto simp: W2_body_def mutual_def W2_weight_def)

lemma W2_inner_loop:
  assumes "neighbours i \<noteq> None" "\<forall>j\<in>set js. neighbours j \<noteq> None"
  shows "for_each js (\<lambda>j. W2_body l Y S neighbours i j) W
       = Inr (W\<lparr>item := (\<lambda>a b. if a = i \<and> b \<in> set js \<and> mutual neighbours i b
                               then W2_weight l Y S i b else item W a b)\<rparr>)"
  using assms(2)
proof (induction js arbitrary: W)
  case Nil
  show ?case by simp
next
  case (Cons j js)
  let ?W' = "if mutual neighbours i j then setitem W i j (W2_weight l Y S i j) else W"
  have "for_each (j # js) (\<lambda>j. W2_body l Y S neighbours i j) W
      = for_each js (\<lambda>j. W2_body l Y S neighbours i j) ?W'"
    using assms(1) Cons.prems by (simp add: W2_body_eq)
  also have "\<dots> = Inr (?W'\<lparr>item := (\<lambda>a b. if a = i \<and> b \<in> set js \<and> mutual neighbours i b
                               then W2_weight l Y S i b else item ?W' a b)\<rparr>)"
    using Cons.prems by (intro Cons.IH) simp
  also have "\<dots> = Inr (W\<lparr>item := (\<lambda>a b. if a = i \<and> b \<in> set (j # js) \<and> mutual neighbours i b
                               then W2_weight l Y S i b else item W a b)\<rparr>)"
    by (auto simp: setitem_def fun_eq_iff)
  finally show ?case .
qed

lemma W2_outer_loop:
  assumes "\<forall>i\<in>set is. neighbours i \<noteq> None" "\<forall>j\<in>set js. neighbours j \<noteq> None"
  shows "for_each is (\<lambda>i. for_each js (\<lambda>j. W2_body l Y S neighbours i j)) W
       = Inr (W\<lparr>item := (\<lambda>a b. if a \<in> set is \<and> b \<in> set js \<and> mutual neighbours a b
                               then W2_weight l Y S a b else item W a b)\<rparr>)"
  using assms(1)
proof (induction "is" arbitrary: W)
  case Nil
  show ?case by simp
next
  case (Cons i "is")
  let ?W' = "W\<lparr>item := (\<lambda>a b. if a = i \<and> b \<in> set js \<and> mutual neighbours i b
                               then W2_weight l Y S i b else item W a b)\<rparr>"
  have "for_each (i # is) (\<lambda>i. for_each js (\<lambda>j. W2_body l Y S neighbours i j)) W
      = for_each is (\<lambda>i. for_each js (\<lambda>j. W2_body l Y S neighbours i j)) ?W'"
    using Cons.prems assms(2) by (simp add: W2_inner_loop)
  also have "\<dots> = Inr (?W'\<lparr>item := (\<lambda>a b. if a \<in> set is \<and> b \<in> set js \<and> mutual neighbours a b
                               then W2_weight l Y S a b else item ?W' a b)\<rparr>)"
    using Cons.prems by (intro Cons.IH) simp
  also have "\<dots> = Inr (W\<lparr>item := (\<lambda>a b. if a \<in> set (i # is) \<and> b \<in> set js \<and> mutual neighbours a b
                               then W2_weight l Y S a b else item W a b)\<rparr>)"
    by (auto intro!: ndarray.equality simp: fun_eq_iff)
  finally show ?case .
qed

lemma labels_nth:
  "i < p + q \<Longrightarrow>
   (replicate p 1 @ map (\<lambda>y. - 1 * y) (replicate q (1::real))) ! i = (if i < p then 1 else - 1)"
  by (auto simp: nth_append)

lemma labels_same:
  assumes "i < p + q" "j < p + q"
  shows "((replicate p 1 @ map (\<lambda>y. - 1 * y) (replicate q (1::real))) ! i
        = (replicate p 1 @ map (\<lambda>y. - 1 * y) (replicate q 1)) ! j) = ((i < p) = (j < p))"
  using assms by (simp only: labels_nth) simp

lemma neighbours_of_defined: "i < shape0 A \<Longrightarrow> neighbours_of lib A k i \<noteq> None"
  by (simp add: neighbours_of_def)

lemma as_f64_shape [simp]: "shape0 (as_f64 A) = shape0 A" "shape1 (as_f64 A) = shape1 A"
  by (simp_all add: as_f64_def)

lemma as_f64_valid: "valid_input (as_f64 A) \<longleftrightarrow> 0 < shape0 A \<and> 0 < shape1 A"
  by (simp add: valid_input_def as_f64_def)

lemma vstack_shape [simp]:
  "shape0 (vstack A B) = shape0 A + shape0 B" "shape1 (vstack A B) = shape1 A"
  by (simp_all add: vstack_def)

lemma get_W2_eq:
  assumes cols: "shape1 (self_XlA_pos self) = shape1 (self_XlA_neg self)"
    and v: "valid_input (as_f64 (vstack (self_XlA_pos self) (self_XlA_neg self)))"
  shows "get_W2 lib self =
     Inr (\<lparr>shape0 = shape0 (self_XlA_pos self) + shape0 (self_XlA_neg self),
           shape1 = shape0 (self_XlA_pos self) + shape0 (self_XlA_neg self),
           item = (\<lambda>a b. if a < shape0 (self_XlA_pos self) + shape0 (self_XlA_neg self)
                              \<and> b < shape0 (self_XlA_pos self) + shape0 (self_XlA_neg self)
                              \<and> mutual (neighbours_of lib
                                    (as_f64 (vstack (self_XlA_pos self) (self_XlA_neg self)))
                                    (self_k2 self)) a b
                           then W2_weight (self_lambda_2 self)
                                  (replicate (shape0 (self_XlA_pos self)) 1
                                   @ map (\<lambda>y. - 1 * y) (replicate (shape0 (self_XlA_neg self)) 1))
                                  (similarity lib
                                    (as_f64 (vstack (self_XlA_pos self) (self_XlA_neg self)))) a b
                           else 0)\<rparr>,
          self\<lparr>self_XlA := Some (vstack (self_XlA_pos self) (self_XlA_neg self)),
               self_pos_n := Some (shape0 (self_XlA_pos self)),
               self_neg_n := Some (shape0 (self_XlA_neg self)),
               self_Y := Some (replicate (shape0 (self_XlA_pos self)) 1
                   @ map (\<lambda>y. - 1 * y) (replicate (shape0 (self_XlA_neg self)) 1))\<rparr>)"
proof -
  let ?n = "shape0 (self_XlA_pos self) + shape0 (self_XlA_neg self)"
  let ?XlA = "vstack (self_XlA_pos self) (self_XlA_neg self)"
  have cat: "concatenate0 (self_XlA_pos self) (self_XlA_neg self) = Inr ?XlA"
    using cols by (simp add: concatenate0_def)
  have def: "\<forall>i\<in>set [0..<?n]. neighbours_of lib (as_f64 ?XlA) (self_k2 self) i \<noteq> None"
    by (simp add: neighbours_of_defined)
  show ?thesis
    unfolding get_W2_def cat bind_Inr Let_def
    by (auto simp: get_kNNs_eq [OF v] W2_outer_loop [OF def def] zeros_def fun_eq_iff)
qed

lemma get_W2_invalid:
  assumes cols: "shape1 (self_XlA_pos self) = shape1 (self_XlA_neg self)"
    and v: "\<not> valid_input (as_f64 (vstack (self_XlA_pos self) (self_XlA_neg self)))"
  shows "get_W2 lib self = Inl ValueError"
proof -
  have cat: "concatenate0 (self_XlA_pos self) (self_XlA_neg self)
      = Inr (vstack (self_XlA_pos self) (self_XlA_neg self))"
    using cols by (simp add: concatenate0_def)
  show ?thesis
    unfolding get_W2_def cat bind_Inr Let_def
    by (simp add: get_kNNs_invalid [OF v])
qed

text \<open>
  Claim C2. For labeled matrices of equal column count with at least one row in all and at
  least one column, \<^verbatim>\<open>get_W2\<close> returns the \<open>n \<times> n\<close> array whose entry \<open>(i, j)\<close> is the
  float64 product \<open>-lambda_2 * S[i,j]\<close> when rows \<open>i\<close> and \<open>j\<close> are mutual \<open>k2\<close>-nearest
  neighbours with the same label, \<open>S[i,j]\<close> when they are mutual neighbours with different
  labels, and 0 when they are not mutual neighbours. The first \<open>pos_n\<close> rows carry the
  label \<open>+1\<close>, the others \<open>-1\<close>. \<open>S\<close> is the similarity matrix of the stacked labeled matrix,
  and the neighbour list of row \<open>i\<close> holds \<^verbatim>\<open>kept k2 n\<close> rows of largest similarity to
  row \<open>i\<close>. When there is no labeled row or no column, no matrix is returned: \<^verbatim>\<open>get_W2\<close>
  raises ValueError.
\<close>

theorem get_W2_entries:
  assumes cols: "shape1 (self_XlA_pos self) = shape1 (self_XlA_neg self)"
    and spec: "argsort_spec lib"
  shows "(0 < shape0 (self_XlA_pos self) + shape0 (self_XlA_neg self)
            \<and> 0 < shape1 (self_XlA_pos self) \<longrightarrow>
          (\<exists>S neighbours W2 self'.
              get_kNNs lib (as_f64 (vstack (self_XlA_pos self) (self_XlA_neg self))) (self_k2 self)
                = Inr (S, neighbours)
            \<and> get_W2 lib self = Inr (W2, self')
            \<and> shape0 W2 = shape0 (self_XlA_pos self) + shape0 (self_XlA_neg self)
            \<and> shape1 W2 = shape0 (self_XlA_pos self) + shape0 (self_XlA_neg self)
            \<and> (\<forall>i<shape0 (self_XlA_pos self) + shape0 (self_XlA_neg self). \<exists>xs.
                  neighbours i = Some xs
                \<and> largest_of_row S i
                     (kept (self_k2 self) (shape0 (self_XlA_pos self) + shape0 (self_XlA_neg self)))
                     xs)
            \<and> (\<forall>i<shape0 (self_XlA_pos self) + shape0 (self_XlA_neg self).
                \<forall>j<shape0 (self_XlA_pos self) + shape0 (self_XlA_neg self).
                  item W2 i j =
                    (if mutual neighbours i j
                     then (if (i < shape0 (self_XlA_pos self)) = (j < shape0 (self_XlA_pos self))
                           then fmul (fneg (Fin (self_lambda_2 self))) (item S i j)
                           else item S i j)
                     else 0))))
       \<and> (\<not> (0 < shape0 (self_XlA_pos self) + shape0 (self_XlA_neg self)
               \<and> 0 < shape1 (self_XlA_pos self)) \<longrightarrow>
            get_W2 lib self = Inl ValueError)"
proof (intro conjI impI)
  let ?XlA = "as_f64 (vstack (self_XlA_pos self) (self_XlA_neg self))"
  let ?n = "shape0 (self_XlA_pos self) + shape0 (self_XlA_neg self)"
  assume "0 < ?n \<and> 0 < shape1 (self_XlA_pos self)"
  then have v: "valid_input ?XlA"
    by (simp add: as_f64_valid)
  have nb: "\<forall>i<?n. \<exists>xs. neighbours_of lib ?XlA (self_k2 self) i = Some xs
      \<and> largest_of_row (similarity lib ?XlA) i (kept (self_k2 self) ?n) xs"
    using neighbours_largest [OF spec, of _ ?XlA "self_k2 self"] by simp
  show "\<exists>S neighbours W2 self'.
              get_kNNs lib ?XlA (self_k2 self) = Inr (S, neighbours)
            \<and> get_W2 lib self = Inr (W2, self')
            \<and> shape0 W2 = ?n \<and> shape1 W2 = ?n
            \<and> (\<forall>i<?n. \<exists>xs. neighbours i = Some xs
                \<and> largest_of_row S i (kept (self_k2 self) ?n) xs)
            \<and> (\<forall>i<?n. \<forall>j<?n.
                  item W2 i j =
                    (if mutual neighbours i j
                     then (if (i < shape0 (self_XlA_pos self)) = (j < shape0 (self_XlA_pos self))
                           then fmul (fneg (Fin (self_lambda_2 self))) (item S i j)
                           else item S i j)
                     else 0))"
    using nb labels_same [of _ "shape0 (self_XlA_pos self)" "shape0 (self_XlA_neg self)"]
    by (simp add: get_kNNs_eq [OF v] get_W2_eq [OF cols v] W2_weight_def)
next
  assume "\<not> (0 < shape0 (self_XlA_pos self) + shape0 (self_XlA_neg self)
               \<and> 0 < shape1 (self_XlA_pos self))"
  then have "\<not> valid_input (as_f64 (vstack (self_XlA_pos self) (self_XlA_neg self)))"
    by (simp add: as_f64_valid)
  then show "get_W2 lib self = Inl ValueError"
    by (rule get_W2_invalid [OF cols])
qed

section \<open>Rounding\<close>

text \<open>The binade of a number fixes its exponent, and with it the rounding.\<close>

lemma exponent_eq:
  assumes lo: "2 powi e \<le> \<bar>x\<bar>" and hi: "\<bar>x\<bar> < 2 powi (e + 1)" and e: "- 1022 \<le> e"
  shows "exponent x = e"
proof -
  have pos: "0 < \<bar>x\<bar>"
    using lo by (smt (verit) zero_less_power_int)
  have p: "(2::real) powr real_of_int n = 2 powi n" for n
    by (simp add: powr_real_of_int')
  have "real_of_int e \<le> log 2 \<bar>x\<bar>"
    using lo pos by (simp add: le_log_iff p)
  moreover have "log 2 \<bar>x\<bar> < real_of_int (e + 1)"
    using hi pos by (subst log_less_iff) (simp_all add: p del: of_int_add)
  ultimately have "\<lfloor>log 2 \<bar>x\<bar>\<rfloor> = e"
    by (simp add: floor_eq_iff)
  then show ?thesis
    using e by (simp add: exponent_def)
qed

lemma round64_eq:
  assumes lo: "2 powi e \<le> \<bar>x\<bar>" and hi: "\<bar>x\<bar> < 2 powi (e + 1)" and e: "- 1022 \<le> e"
    and m: "rne (x / 2 powi (e - 52)) = m"
    and fin: "\<bar>of_int m * 2 powi (e - 52)\<bar> < (2::real) ^ 1024" and nz: "m \<noteq> 0"
  shows "round64 x = Fin (of_int m * 2 powi (e - 52))"
proof -
  have "x \<noteq> 0"
    using lo by (smt (verit) zero_less_power_int)
  moreover have "of_int m * (2::real) powi (e - 52) \<noteq> 0"
    using nz by simp
  ultimately show ?thesis
    using fin by (simp add: round64_def exponent_eq [OF lo hi e] m Let_def)
qed

lemma rne_int [simp]: "rne (of_int n) = n"
  by (simp add: rne_def)

lemma round64_one: "round64 1 = Fin 1"
  using round64_eq [of 0 1 "2 ^ 52"] by (simp add: power_int_minus_divide rne_def)

lemma round64_two: "round64 2 = Fin 2"
  using round64_eq [of 1 2 "2 ^ 52"] by (simp add: power_int_minus_divide rne_def)

lemma round64_ten16: "round64 (10 ^ 16) = Fin (10 ^ 16)"
  using round64_eq [of 53 "10 ^ 16" "5 * 10 ^ 15"] by (simp add: rne_def)

lemma round64_ten16_plus_one: "round64 (10 ^ 16 + 1) = Fin (10 ^ 16)"
  using round64_eq [of 53 "10 ^ 16 + 1" "5 * 10 ^ 15"] by (simp add: rne_def)

section \<open>The examples in float64\<close>

lemma upt_two: "[0..<2] = [0, 1]"
  by (simp add: upt_rec)

lemma upt_three: "[0..<3] = [0, 1, 2]"
  by (simp add: upt_rec)

lemma small_sums [simp]:
  "fadd (Fin 0) (Fin 0) = Fin 0" "fadd (Fin 0) (Fin 1) = Fin 1" "fadd (Fin 1) (Fin 0) = Fin 1"
  "fadd (Fin 1) (Fin 1) = Fin 2"
  by (simp_all add: fadd_def round64_one round64_two)

lemma small_products [simp]:
  "fmul (Fin 0) (Fin 0) = Fin 0" "fmul (Fin 0) (Fin 1) = Fin 0" "fmul (Fin 1) (Fin 0) = Fin 0"
  "fmul (Fin 1) (Fin 1) = Fin 1"
  by (simp_all add: fmul_def signed_zero_def round64_one)

lemma small_quotients [simp]:
  "fdiv (Fin 0) (Fin 1) = Fin 0" "fdiv (Fin 1) (Fin 1) = Fin 1"
  by (simp_all add: fdiv_def signed_zero_def round64_one)

lemma round64_zero [simp]: "round64 0 = Fin 0"
  by (simp add: round64_def)

lemma small_roots [simp]: "fsqrt (Fin 0) = Fin 0" "fsqrt (Fin 1) = Fin 1"
  by (simp_all add: round64_one)

lemma XlA_labeled_shape: "shape0 XlA_labeled = 3" "shape1 XlA_labeled = 2"
  by (simp_all add: XlA_labeled_def of_rows_def)

lemma XlA_labeled_item:
  "item XlA_labeled 0 0 = Fin 1" "item XlA_labeled 0 1 = Fin 0"
  "item XlA_labeled 1 0 = Fin 1" "item XlA_labeled 1 1 = Fin 0"
  "item XlA_labeled 2 0 = Fin 0" "item XlA_labeled 2 1 = Fin 1"
  by (simp_all add: XlA_labeled_def as_f64_def vstack_def of_rows_def)

lemma XlA_labeled_normalized:
  "normalize_values numpy_seq XlA_labeled 0 0 = Fin 1"
  "normalize_values numpy_seq XlA_labeled 0 1 = Fin 0"
  "normalize_values numpy_seq XlA_labeled 1 0 = Fin 1"
  "normalize_values numpy_seq XlA_labeled 1 1 = Fin 0"
  "normalize_values numpy_seq XlA_labeled 2 0 = Fin 0"
  "normalize_values numpy_seq XlA_labeled 2 1 = Fin 1"
  by (simp_all add: numpy_seq_def seq_sum_def XlA_labeled_shape XlA_labeled_item upt_two
      zero_f64_def one_f64_def round64_one Let_def del: One_nat_def)

lemma XlA_labeled_similarity:
  "item (similarity numpy_seq XlA_labeled) 0 0 = Fin 1"
  "item (similarity numpy_seq XlA_labeled) 0 1 = Fin 1"
  "item (similarity numpy_seq XlA_labeled) 0 2 = Fin 0"
  "item (similarity numpy_seq XlA_labeled) 1 0 = Fin 1"
  "item (similarity numpy_seq XlA_labeled) 1 1 = Fin 1"
  "item (similarity numpy_seq XlA_labeled) 1 2 = Fin 0"
  "item (similarity numpy_seq XlA_labeled) 2 0 = Fin 0"
  "item (similarity numpy_seq XlA_labeled) 2 1 = Fin 0"
  "item (similarity numpy_seq XlA_labeled) 2 2 = Fin 1"
  unfolding similarity_def normalized_def
  by (simp_all add: numpy_seq_def [THEN arg_cong, of dot_values] seq_sum_def transpose_nd_def
      XlA_labeled_shape XlA_labeled_normalized upt_two zero_f64_def del: One_nat_def)

lemma XlA_labeled_neighbours:
  "neighbours_of numpy_seq XlA_labeled 2 0 = Some [0, 1]"
  "neighbours_of numpy_seq XlA_labeled 2 1 = Some [0, 1]"
  by (simp_all add: neighbours_of_def XlA_labeled_shape numpy_seq_def [THEN arg_cong, of argsort_values]
      XlA_labeled_similarity upt_three slice_from_def del: One_nat_def)

lemma XlA_labeled_mutual:
  "mutual (neighbours_of numpy_seq XlA_labeled 2) 0 0"
  "mutual (neighbours_of numpy_seq XlA_labeled 2) 0 1"
  "\<not> mutual (neighbours_of numpy_seq XlA_labeled 2) 0 2"
  "mutual (neighbours_of numpy_seq XlA_labeled 2) 1 1"
proof -
  obtain ys where "neighbours_of numpy_seq XlA_labeled 2 2 = Some ys"
    using neighbours_of_defined [of 2 XlA_labeled numpy_seq 2] by (auto simp: XlA_labeled_shape)
  then show "mutual (neighbours_of numpy_seq XlA_labeled 2) 0 0"
    "mutual (neighbours_of numpy_seq XlA_labeled 2) 0 1"
    "\<not> mutual (neighbours_of numpy_seq XlA_labeled 2) 0 2"
    "mutual (neighbours_of numpy_seq XlA_labeled 2) 1 1"
    by (simp_all add: mutual_def XlA_labeled_neighbours del: One_nat_def)
qed

lemma self_labeled_fields:
  "self_XlA_pos self_labeled = of_rows 1 2 [[1, 0]]"
  "self_XlA_neg self_labeled = of_rows 2 2 [[1, 0], [0, 1]]"
  by (simp_all add: self_labeled_def attributes_def)

lemma self_labeled_params: "self_k2 self_labeled = 2" "self_lambda_2 self_labeled = 2"
  by (simp_all add: self_labeled_def attributes_def)

lemma of_rows_shape [simp]: "shape0 (of_rows m n rows) = m" "shape1 (of_rows m n rows) = n"
  by (simp_all add: of_rows_def)

lemma minus_two_times_one: "fmul (Fin (- 2)) (Fin 1) = Fin (- 2)"
  using round64_eq [of 1 "- 2" "- (2 ^ 52)"]
  by (simp add: fmul_def power_int_minus_divide rne_def)

theorem get_W2_entries_witness:
  "shape1 (self_XlA_pos self_labeled) = shape1 (self_XlA_neg self_labeled)
   \<and> argsort_spec numpy_seq
   \<and> 0 < shape0 (self_XlA_pos self_labeled) + shape0 (self_XlA_neg self_labeled)
   \<and> 0 < shape1 (self_XlA_pos self_labeled)
   \<and> (\<exists>W2 self'. get_W2 numpy_seq self_labeled = Inr (W2, self')
        \<and> shape0 W2 = 3 \<and> shape1 W2 = 3
        \<and> item W2 0 0 = Fin (- 2) \<and> item W2 1 1 = Fin (- 2)
        \<and> item W2 0 1 = Fin 1 \<and> item W2 0 2 = Fin 0)"
proof -
  let ?XlA = "as_f64 (vstack (self_XlA_pos self_labeled) (self_XlA_neg self_labeled))"
  have cols: "shape1 (self_XlA_pos self_labeled) = shape1 (self_XlA_neg self_labeled)"
    by (simp add: self_labeled_fields)
  have ne: "0 < shape0 (self_XlA_pos self_labeled) + shape0 (self_XlA_neg self_labeled)
      \<and> 0 < shape1 (self_XlA_pos self_labeled)"
    by (simp add: self_labeled_fields)
  have x: "?XlA = XlA_labeled"
    by (simp add: XlA_labeled_def self_labeled_fields)
  have v: "valid_input XlA_labeled"
    using ne by (simp add: x [symmetric] as_f64_valid)
  obtain S neighbours W2 self' where
    k: "get_kNNs numpy_seq ?XlA (self_k2 self_labeled) = Inr (S, neighbours)"
    and r: "get_W2 numpy_seq self_labeled = Inr (W2, self')"
    and sh: "shape0 W2 = shape0 (self_XlA_pos self_labeled) + shape0 (self_XlA_neg self_labeled)"
      "shape1 W2 = shape0 (self_XlA_pos self_labeled) + shape0 (self_XlA_neg self_labeled)"
    and e: "\<forall>i<shape0 (self_XlA_pos self_labeled) + shape0 (self_XlA_neg self_labeled).
            \<forall>j<shape0 (self_XlA_pos self_labeled) + shape0 (self_XlA_neg self_labeled).
              item W2 i j =
                (if mutual neighbours i j
                 then (if (i < shape0 (self_XlA_pos self_labeled))
                          = (j < shape0 (self_XlA_pos self_labeled))
                       then fmul (fneg (Fin (self_lambda_2 self_labeled))) (item S i j)
                       else item S i j)
                 else 0)"
    using get_W2_entries [OF cols argsort_spec_numpy_seq, THEN conjunct1, THEN mp, OF ne]
    by (elim exE conjE) (rule that)
  have S: "S = similarity numpy_seq XlA_labeled"
    and nb: "neighbours = neighbours_of numpy_seq XlA_labeled 2"
    using k by (simp_all add: x self_labeled_params get_kNNs_eq [OF v])
  have "item W2 0 0 = Fin (- 2)" "item W2 1 1 = Fin (- 2)" "item W2 0 1 = Fin 1"
    "item W2 0 2 = Fin 0"
    using e [rule_format, of 0 0] e [rule_format, of 1 1] e [rule_format, of 0 1]
      e [rule_format, of 0 2]
    by (simp_all add: S nb XlA_labeled_mutual XlA_labeled_similarity self_labeled_fields
        self_labeled_params minus_two_times_one zero_f64_def del: One_nat_def)
  then have main: "\<exists>W2 self'. get_W2 numpy_seq self_labeled = Inr (W2, self')
        \<and> shape0 W2 = 3 \<and> shape1 W2 = 3
        \<and> item W2 0 0 = Fin (- 2) \<and> item W2 1 1 = Fin (- 2)
        \<and> item W2 0 1 = Fin 1 \<and> item W2 0 2 = Fin 0"
    using r sh by (simp add: self_labeled_fields)
  show ?thesis
    by (intro conjI) (rule cols argsort_spec_numpy_seq ne [THEN conjunct1] ne [THEN conjunct2] main)+
qed

section \<open>The Laplacian\<close>

lemma sum_axis1_length [simp]: "length (sum_axis1 lib W) = shape0 W"
  by (simp add: sum_axis1_def)

lemma sum_axis1_nth: "i < shape0 W \<Longrightarrow> sum_axis1 lib W ! i = sum_values lib W i"
  by (simp add: sum_axis1_def)

lemma bitem_in_range: "i < shape0 A \<Longrightarrow> j < shape1 A \<Longrightarrow> bitem A i j = item A i j"
  by (auto simp: bitem_def)

lemma get_Laplacian_square:
  assumes sq: "shape1 W = shape0 W"
  shows "get_Laplacian lib W = Inr (Laplacian_of lib W)"
  using sq by (simp add: get_Laplacian_def Let_def subtract_def broadcast_dim_def diag_def
      Laplacian_of_def)

lemma Laplacian_item:
  assumes sq: "shape1 W = shape0 W" and i: "i < shape0 W" and j: "j < shape0 W"
  shows "item (Laplacian_of lib W) i j
       = fsub (item W i j) (if i = j then sum_values lib W i else 0)"
proof -
  have "bitem W i j = item W i j"
    using sq i j by (simp add: bitem_in_range)
  moreover have "bitem (diag (sum_axis1 lib W)) i j = item (diag (sum_axis1 lib W)) i j"
    using i j by (simp add: bitem_in_range diag_def)
  moreover have "item (diag (sum_axis1 lib W)) i j = (if i = j then sum_values lib W i else 0)"
    using i by (simp add: diag_def sum_axis1_nth)
  ultimately show ?thesis
    by (simp add: Laplacian_of_def)
qed

lemma fsub_zero: "is_float64 w \<Longrightarrow> fsub w 0 = w"
  by (cases w) (auto simp: fsub_def fadd_def zero_f64_def)

lemma exact_row_sum:
  assumes sq: "shape1 W = shape0 W" and i: "i < shape0 W" and ex: "exact_row lib W i"
  shows "(\<Sum>j<shape0 W. val (item (Laplacian_of lib W) i j)) = 0"
proof -
  let ?n = "shape0 W"
  let ?s = "sum_values lib W i"
  have off: "val (item (Laplacian_of lib W) i j) = val (item W i j)" if "j < ?n" "j \<noteq> i" for j
    using that ex sq i by (simp add: Laplacian_item fsub_zero exact_row_def)
  have on: "val (item (Laplacian_of lib W) i i) = val (item W i i) - val ?s"
    using ex sq i by (simp add: Laplacian_item exact_row_def)
  have s: "val ?s = (\<Sum>j<?n. val (item W i j))"
    using ex sq by (simp add: exact_row_def)
  have "(\<Sum>j<?n. val (item (Laplacian_of lib W) i j))
      = (\<Sum>j<?n. val (item W i j) - (if j = i then val ?s else 0))"
    using off on by (intro sum.cong refl) auto
  also have "\<dots> = (\<Sum>j<?n. val (item W i j)) - (\<Sum>j<?n. if j = i then val ?s else 0)"
    by (simp add: sum_subtractf)
  also have "(\<Sum>j<?n. if j = i then val ?s else 0) = val ?s"
    using i by simp
  finally show ?thesis
    using s by simp
qed

text \<open>
  Claim C8, as the code has it. For every square float64 array \<open>W\<close>, \<^verbatim>\<open>get_Laplacian\<close>
  returns \<open>W - diag(s)\<close>, \<open>s\<close> the row sums that \<^verbatim>\<open>numpy.sum\<close> returns, every entry one rounded
  subtraction: off the diagonal the entry of \<open>W\<close> itself, on the diagonal the rounded
  \<open>W[i,i] - s[i]\<close>. A row of the result sums to zero when it is computed without rounding
  error: when \<open>s[i]\<close> is the exact sum of row \<open>i\<close> and \<open>W[i,i] - s[i]\<close> is exact.
\<close>

theorem get_Laplacian_is_difference:
  assumes "shape1 W = shape0 W"
  shows "\<exists>L. get_Laplacian lib W = Inr L
           \<and> shape0 L = shape0 W \<and> shape1 L = shape0 W
           \<and> (\<forall>i<shape0 W. \<forall>j<shape0 W.
                 item L i j = fsub (item W i j) (if i = j then sum_axis1 lib W ! i else 0))
           \<and> (\<forall>i<shape0 W. \<forall>j<shape0 W.
                 i \<noteq> j \<and> is_float64 (item W i j) \<longrightarrow> item L i j = item W i j)
           \<and> (\<forall>i<shape0 W. exact_row lib W i \<longrightarrow>
                 (\<Sum>j<shape0 W. val (item L i j)) = 0)"
proof -
  let ?L = "Laplacian_of lib W"
  have 1: "get_Laplacian lib W = Inr ?L"
    using assms by (rule get_Laplacian_square)
  have 2: "shape0 ?L = shape0 W" "shape1 ?L = shape0 W"
    by (simp_all add: Laplacian_of_def)
  have 3: "\<forall>i<shape0 W. \<forall>j<shape0 W.
      item ?L i j = fsub (item W i j) (if i = j then sum_axis1 lib W ! i else 0)"
    using assms by (simp add: Laplacian_item sum_axis1_nth)
  have 4: "\<forall>i<shape0 W. \<forall>j<shape0 W.
      i \<noteq> j \<and> is_float64 (item W i j) \<longrightarrow> item ?L i j = item W i j"
    using assms by (simp add: Laplacian_item fsub_zero)
  have 5: "\<forall>i<shape0 W. exact_row lib W i \<longrightarrow> (\<Sum>j<shape0 W. val (item ?L i j)) = 0"
    using assms by (simp add: exact_row_sum)
  show ?thesis
    using 1 2 3 4 5 by (intro exI [of _ ?L] conjI) assumption+
qed

lemma round64_minus_one: "round64 (- 1) = Fin (- 1)"
  using round64_eq [of 0 "- 1" "- (2 ^ 52)"] by (simp add: power_int_minus_divide rne_def)

lemma round64_ten16_numerals:
  "round64 10000000000000000 = Fin 10000000000000000"
  "round64 10000000000000001 = Fin 10000000000000000"
  using round64_ten16 round64_ten16_plus_one by simp_all

lemma sum_two: "(\<Sum>j<2. f j) = f 0 + f (1::nat)"
  by (simp add: numeral_2_eq_2)

lemma W_large_shape: "shape0 W_large = 2" "shape1 W_large = 2"
  by (simp_all add: W_large_def)

lemma W_large_item:
  "item W_large 0 0 = Fin (10 ^ 16)" "item W_large 0 1 = Fin 1"
  "item W_large 1 0 = Fin 1" "item W_large 1 1 = Fin 1"
  by (simp_all add: W_large_def of_rows_def)

lemma W_large_sums:
  "sum_values numpy_seq W_large 0 = Fin (10 ^ 16)" "sum_values numpy_seq W_large 1 = Fin 2"
  by (simp_all add: numpy_seq_def seq_sum_def W_large_shape W_large_item upt_two zero_f64_def
      fadd_def round64_ten16_numerals round64_one round64_two del: One_nat_def)

lemma W_large_Laplacian:
  "item (Laplacian_of numpy_seq W_large) 0 0 = Fin 0"
  "item (Laplacian_of numpy_seq W_large) 0 1 = Fin 1"
  "item (Laplacian_of numpy_seq W_large) 1 0 = Fin 1"
  "item (Laplacian_of numpy_seq W_large) 1 1 = Fin (- 1)"
  by (simp_all add: Laplacian_item W_large_shape W_large_item W_large_sums zero_f64_def
      fsub_def fadd_def round64_one round64_minus_one del: One_nat_def)

lemma W_large_exact_row: "exact_row numpy_seq W_large 1"
  unfolding exact_row_def W_large_shape W_large_sums
  by (simp add: W_large_item less_two sum_two round64_one
      fsub_def fadd_def round64_minus_one del: One_nat_def)

theorem get_Laplacian_is_difference_witness:
  "shape1 W_large = shape0 W_large \<and> exact_row numpy_seq W_large 1
   \<and> is_float64 (item W_large 1 0)
   \<and> (\<exists>L. get_Laplacian numpy_seq W_large = Inr L \<and> shape0 L = 2 \<and> shape1 L = 2
          \<and> item L 1 0 = Fin 1 \<and> item L 1 1 = Fin (- 1)
          \<and> val (item L 1 0) + val (item L 1 1) = 0)"
proof -
  have sq: "shape1 W_large = shape0 W_large"
    by (simp add: W_large_shape)
  have fl: "is_float64 (item W_large 1 0)"
    by (simp add: W_large_item round64_one del: One_nat_def)
  obtain L where r: "get_Laplacian numpy_seq W_large = Inr L"
    and sh: "shape0 L = shape0 W_large" "shape1 L = shape0 W_large"
    and d: "\<forall>i<shape0 W_large. \<forall>j<shape0 W_large.
        item L i j = fsub (item W_large i j) (if i = j then sum_axis1 numpy_seq W_large ! i else 0)"
    and o: "\<forall>i<shape0 W_large. \<forall>j<shape0 W_large.
        i \<noteq> j \<and> is_float64 (item W_large i j) \<longrightarrow> item L i j = item W_large i j"
    and z: "\<forall>i<shape0 W_large. exact_row numpy_seq W_large i \<longrightarrow>
        (\<Sum>j<shape0 W_large. val (item L i j)) = 0"
    using get_Laplacian_is_difference [OF sq, of numpy_seq] by (elim exE conjE) (rule that)
  have a: "item L 1 0 = Fin 1"
    using o [rule_format, of 1 0] fl by (simp add: W_large_shape W_large_item del: One_nat_def)
  have b: "item L 1 1 = Fin (- 1)"
    using d [rule_format, of 1 1]
    by (simp add: W_large_shape W_large_item sum_axis1_nth W_large_sums fsub_def fadd_def
        round64_minus_one del: One_nat_def)
  have c: "val (item L 1 0) + val (item L 1 1) = 0"
    using z [rule_format, of 1] W_large_exact_row
    by (simp add: W_large_shape sum_two del: One_nat_def)
  have main: "\<exists>L. get_Laplacian numpy_seq W_large = Inr L \<and> shape0 L = 2 \<and> shape1 L = 2
          \<and> item L 1 0 = Fin 1 \<and> item L 1 1 = Fin (- 1)
          \<and> val (item L 1 0) + val (item L 1 1) = 0"
    using r sh a b c by (intro exI [of _ L]) (simp add: W_large_shape)
  show ?thesis
    by (intro conjI) (rule sq W_large_exact_row fl main)+
qed

text \<open>
  For \<open>W = [[1e16, 1], [1, 1]]\<close> the sum of row 0 is \<open>1e16 + 1\<close>, which rounds to \<open>1e16\<close>:
  row 0 of the Laplacian is \<open>[0, 1]\<close>, and it sums to 1, as a real sum and as \<^verbatim>\<open>numpy.sum\<close>
  adds it.
\<close>

theorem get_Laplacian_rounding_counterexample:
  "get_Laplacian numpy_seq W_large = Inr (Laplacian_of numpy_seq W_large)
   \<and> item (Laplacian_of numpy_seq W_large) 0 0 = Fin 0
   \<and> item (Laplacian_of numpy_seq W_large) 0 1 = Fin 1
   \<and> val (item (Laplacian_of numpy_seq W_large) 0 0)
       + val (item (Laplacian_of numpy_seq W_large) 0 1) = 1
   \<and> sum_values numpy_seq (Laplacian_of numpy_seq W_large) 0 = Fin 1"
proof -
  have "sum_values numpy_seq (Laplacian_of numpy_seq W_large) 0 = Fin 1"
    using W_large_Laplacian
    by (simp add: numpy_seq_def [THEN arg_cong, of sum_values] seq_sum_def Laplacian_of_def
        W_large_shape upt_two zero_f64_def del: One_nat_def)
  then show ?thesis
    by (simp add: get_Laplacian_square W_large_shape W_large_Laplacian del: One_nat_def)
qed

end
